theory Spec2Isabelle
  imports Complex_Main "HOL-Library.Word"
begin


section \<open>Python values, exceptions and dictionaries\<close>

text \<open>
  An exception is its class name and the text that \<^verbatim>\<open>str(e)\<close> gives. The model covers the
  instances of \<^verbatim>\<open>Exception\<close>, the ones an \<^verbatim>\<open>except Exception\<close> clause catches; the
  interpreter's exit signals (\<^verbatim>\<open>KeyboardInterrupt\<close>, \<^verbatim>\<open>SystemExit\<close>) are outside it.
  A computation that may raise has the type \<open>pyexc + 'a\<close>, with \<open>Inl\<close> the raised exception.
  Python floats are modelled as reals: no rounding and no NaN.
\<close>

datatype pyexc = PyExc (exc_type: string) (exc_msg: string)

datatype pyval =
    PNone
  | PBool bool
  | PInt int
  | PFloat real
  | PStr string
  | PList "pyval list"
  | PDict "(string \<times> pyval) list"
  | PMap "(pyval \<times> pyval) list"

text \<open>
  \<open>PDict\<close> is a dict with string keys (a JSON object, a result record), \<open>PMap\<close> a dict
  whose keys are any hashable values. A dict keeps insertion order; storing under a key
  that is present keeps its position.
\<close>

fun dict_set :: "('k \<times> 'v) list \<Rightarrow> 'k \<Rightarrow> 'v \<Rightarrow> ('k \<times> 'v) list" where
  "dict_set [] k v = [(k, v)]"
| "dict_set ((k', v') # d) k v = (if k' = k then (k, v) # d else (k', v') # dict_set d k v)"

definition dict_of_items :: "('k \<times> 'v) list \<Rightarrow> ('k \<times> 'v) list" where
  "dict_of_items kvs = foldl (\<lambda>d (k, v). dict_set d k v) [] kvs"

definition dict_get :: "('k \<times> 'v) list \<Rightarrow> 'k \<Rightarrow> 'v option" where
  "dict_get d k = map_of d k"

text \<open>The try statement: the handler runs on an exception of the body, and may raise itself.\<close>

definition try_except :: "pyexc + 'a \<Rightarrow> (pyexc \<Rightarrow> pyexc + 'a) \<Rightarrow> pyexc + 'a" where
  "try_except body handler = (case body of Inl e \<Rightarrow> handler e | Inr v \<Rightarrow> Inr v)"

fun bind_exc :: "pyexc + 'a \<Rightarrow> ('a \<Rightarrow> pyexc + 'b) \<Rightarrow> pyexc + 'b" where
  "bind_exc (Inl e) f = Inl e"
| "bind_exc (Inr v) f = f v"

fun show_nat :: "nat \<Rightarrow> string" where
  "show_nat n =
     (if n < 10 then [''0123456789'' ! n] else show_nat (n div 10) @ [''0123456789'' ! (n mod 10)])"

declare show_nat.simps [simp del]

section \<open>Images and arrays (the imaging libraries)\<close>

text \<open>
  The pixel data of a decoded image: three bytes a pixel in mode RGB, a list of band bytes in
  any other mode of PIL. \<open>img_size\<close> of an image is (width, height), as in PIL. An array is its
  shape and its elements in row-major order, as in numpy.
\<close>

type_synonym byte = "8 word"

datatype other_mode =
    Mode_1 | Mode_L | Mode_P | Mode_LA | Mode_PA | Mode_RGBA | Mode_CMYK | Mode_YCbCr
  | Mode_LAB | Mode_HSV | Mode_I | Mode_F

fun mode_name :: "other_mode \<Rightarrow> string" where
  "mode_name Mode_1 = ''1''"
| "mode_name Mode_L = ''L''"
| "mode_name Mode_P = ''P''"
| "mode_name Mode_LA = ''LA''"
| "mode_name Mode_PA = ''PA''"
| "mode_name Mode_RGBA = ''RGBA''"
| "mode_name Mode_CMYK = ''CMYK''"
| "mode_name Mode_YCbCr = ''YCbCr''"
| "mode_name Mode_LAB = ''LAB''"
| "mode_name Mode_HSV = ''HSV''"
| "mode_name Mode_I = ''I''"
| "mode_name Mode_F = ''F''"

datatype raster =
    RGB "nat \<Rightarrow> nat \<Rightarrow> byte \<times> byte \<times> byte"
  | Bands other_mode "nat \<Rightarrow> nat \<Rightarrow> byte list"

record image =
  im_size :: "nat \<times> nat"
  im_raster :: raster

record ndarray =
  shape :: "nat list"
  data :: "real list"

record upload =
  upload_filename :: "pyval option"
  upload_bytes :: "byte list"

text \<open>
  What the code takes from its libraries and from the machine: the decoder of PIL for a path
  and for uploaded bytes, PIL's colour conversion and resampling, the forward pass of a
  serialized network, and the readings of the clock.
\<close>

record env =
  open_path :: "string \<Rightarrow> pyexc + image"
  open_bytes :: "byte list \<Rightarrow> pyexc + image"
  to_rgb :: "other_mode \<Rightarrow> byte list \<Rightarrow> byte \<times> byte \<times> byte"
  resample :: "nat \<times> nat \<Rightarrow> (nat \<Rightarrow> nat \<Rightarrow> byte \<times> byte \<times> byte) \<Rightarrow> nat \<times> nat
                \<Rightarrow> (nat \<Rightarrow> nat \<Rightarrow> byte \<times> byte \<times> byte)"
  forward :: "nat \<Rightarrow> ndarray \<Rightarrow> pyexc + real list list"
  clock :: "nat \<Rightarrow> string"

definition im_mode :: "image \<Rightarrow> string" where
  "im_mode img = (case im_raster img of RGB _ \<Rightarrow> ''RGB'' | Bands m _ \<Rightarrow> mode_name m)"

text \<open>\<^verbatim>\<open>img.convert('RGB')\<close>\<close>

definition convert_RGB :: "env \<Rightarrow> image \<Rightarrow> image" where
  "convert_RGB E img =
     (case im_raster img of
        RGB f \<Rightarrow> img
      | Bands m f \<Rightarrow> img\<lparr>im_raster := RGB (\<lambda>x y. to_rgb E m (f x y))\<rparr>)"

text \<open>\<^verbatim>\<open>img.resize(size)\<close>: \<open>size\<close> is (width, height); PIL refuses an empty target.\<close>

definition resize :: "env \<Rightarrow> image \<Rightarrow> nat \<times> nat \<Rightarrow> pyexc + image" where
  "resize E img wh =
     (if fst wh = 0 \<or> snd wh = 0
      then Inl (PyExc ''ValueError'' ''height and width must be > 0'')
      else Inr \<lparr>im_size = wh,
                im_raster = (case im_raster img of
                               RGB f \<Rightarrow> RGB (resample E (im_size img) f wh)
                             | Bands m f \<Rightarrow> Bands m f)\<rparr>)"

text \<open>
  Keras' \<^verbatim>\<open>load_img(path, target_size=(height, width))\<close> in its default colour mode: it
  converts to RGB, and resizes to (width, height) = (target_size[1], target_size[0]) when
  the image has another size.
\<close>

definition load_img :: "env \<Rightarrow> string \<Rightarrow> nat \<times> nat \<Rightarrow> pyexc + image" where
  "load_img E path target_sz =
     bind_exc (open_path E path) (\<lambda>img.
       let img = (if im_mode img \<noteq> ''RGB'' then convert_RGB E img else img);
           width_height_tuple = (snd target_sz, fst target_sz)
       in if im_size img \<noteq> width_height_tuple then resize E img width_height_tuple
          else Inr img)"

text \<open>Keras' \<^verbatim>\<open>img_to_array\<close>: an array of shape (height, width, channels).\<close>

definition pixel_values :: "raster \<Rightarrow> nat \<Rightarrow> nat \<Rightarrow> real list" where
  "pixel_values r x y =
     (case r of
        RGB f \<Rightarrow> (case f x y of (a, b, c) \<Rightarrow> [real (unat a), real (unat b), real (unat c)])
      | Bands m f \<Rightarrow> map (\<lambda>b. real (unat b)) (f x y))"

definition channels :: "raster \<Rightarrow> nat" where
  "channels r = (case r of RGB f \<Rightarrow> 3 | Bands m f \<Rightarrow> length (f 0 0))"

definition img_to_array :: "image \<Rightarrow> ndarray" where
  "img_to_array img =
     (let w = fst (im_size img); h = snd (im_size img)
      in \<lparr>shape = [h, w, channels (im_raster img)],
          data = concat (map (\<lambda>y. concat (map (\<lambda>x. pixel_values (im_raster img) x y) [0..<w]))
                             [0..<h])\<rparr>)"

definition divide_array :: "ndarray \<Rightarrow> real \<Rightarrow> ndarray" where
  "divide_array a c = a\<lparr>data := map (\<lambda>v. v / c) (data a)\<rparr>"

text \<open>\<^verbatim>\<open>np.expand_dims(a, axis=0)\<close>\<close>

definition expand_dims0 :: "ndarray \<Rightarrow> ndarray" where
  "expand_dims0 a = a\<lparr>shape := 1 # shape a\<rparr>"

section \<open>preprocessing.py: ImagePreprocessor\<close>

definition preprocess_single_image :: "env \<Rightarrow> nat \<times> nat \<Rightarrow> string \<Rightarrow> bool \<Rightarrow> pyexc + ndarray" where
  "preprocess_single_image E img_size image_path normalize' =
     try_except
       (bind_exc (load_img E image_path img_size) (\<lambda>img.
          let img_array = img_to_array img;
              img_array = (if normalize' then divide_array img_array 255 else img_array)
          in Inr (expand_dims0 img_array)))
       (\<lambda>e. Inl (PyExc ''ValueError''
                   (''Error preprocessing image '' @ image_path @ '': '' @ exc_msg e)))"

definition preprocess_uploaded_image :: "env \<Rightarrow> nat \<times> nat \<Rightarrow> upload \<Rightarrow> bool \<Rightarrow> pyexc + ndarray" where
  "preprocess_uploaded_image E img_size image_file normalize' =
     try_except
       (bind_exc (open_bytes E (upload_bytes image_file)) (\<lambda>img.
          let img = (if im_mode img \<noteq> ''RGB'' then convert_RGB E img else img)
          in bind_exc (resize E img img_size) (\<lambda>img.
               let img_array = img_to_array img;
                   img_array = (if normalize' then divide_array img_array 255 else img_array)
               in Inr (expand_dims0 img_array))))
       (\<lambda>e. Inl (PyExc ''ValueError'' (''Error preprocessing uploaded image: '' @ exc_msg e)))"

section \<open>model.py: ImageClassifier.predict\<close>

record classifier =
  img_size :: "nat \<times> nat"
  num_classes :: int
  learning_rate :: real
  model :: "nat option"

text \<open>\<^verbatim>\<open>np.argmax\<close>: the first index of the largest entry; an empty row raises.\<close>

fun argmax_loop :: "real list \<Rightarrow> nat \<Rightarrow> nat \<Rightarrow> real \<Rightarrow> nat" where
  "argmax_loop [] i best bv = best"
| "argmax_loop (x # xs) i best bv =
     (if bv < x then argmax_loop xs (Suc i) i x else argmax_loop xs (Suc i) best bv)"

definition np_argmax :: "real list \<Rightarrow> pyexc + nat" where
  "np_argmax xs =
     (case xs of
        [] \<Rightarrow> Inl (PyExc ''ValueError'' ''attempt to get argmax of an empty sequence'')
      | x # r \<Rightarrow> Inr (argmax_loop r 1 0 x))"

definition enumerate_row :: "real list \<Rightarrow> (nat \<times> real) list" where
  "enumerate_row row = dict_of_items (zip [0..<length row] row)"

definition predict :: "env \<Rightarrow> classifier \<Rightarrow> ndarray \<Rightarrow> pyexc + nat \<times> real \<times> (nat \<times> real) list" where
  "predict E self image_array =
     (case model self of
        None \<Rightarrow> Inl (PyExc ''ValueError'' ''Model not created or loaded.'')
      | Some m \<Rightarrow>
          bind_exc (forward E m image_array) (\<lambda>predictions.
            case predictions of
              [] \<Rightarrow> Inl (PyExc ''IndexError'' ''index 0 is out of bounds for axis 0 with size 0'')
            | row # _ \<Rightarrow>
                bind_exc (np_argmax row) (\<lambda>predicted_class.
                  let confidence = row ! predicted_class;
                      probabilities = enumerate_row row
                  in Inr (predicted_class, confidence, probabilities))))"

section \<open>prediction.py: PredictionService\<close>

record prediction_service =
  svc_img_size :: "nat \<times> nat"
  svc_classifier :: classifier
  class_indices :: "(string \<times> int) list"
  index_to_class :: "(int \<times> string) list"

text \<open>The reverse mapping that the constructor derives from the class-index file.\<close>

definition reverse_mapping :: "(string \<times> int) list \<Rightarrow> (int \<times> string) list" where
  "reverse_mapping ci = dict_of_items (map (\<lambda>(k, v). (v, k)) ci)"

text \<open>
  \<^verbatim>\<open>self.index_to_class[idx]\<close>: a missing key raises KeyError; its text is taken to be the
  index in decimal.
\<close>

definition class_name :: "prediction_service \<Rightarrow> nat \<Rightarrow> pyexc + string" where
  "class_name self idx =
     (case dict_get (index_to_class self) (int idx) of
        None \<Rightarrow> Inl (PyExc ''KeyError'' (show_nat idx))
      | Some c \<Rightarrow> Inr c)"

fun named_items :: "prediction_service \<Rightarrow> (nat \<times> real) list \<Rightarrow> pyexc + (string \<times> pyval) list" where
  "named_items self [] = Inr []"
| "named_items self ((idx, prob) # ps) =
     bind_exc (class_name self idx) (\<lambda>c.
       bind_exc (named_items self ps) (\<lambda>r. Inr ((c, PFloat prob) # r)))"

definition named_probabilities :: "prediction_service \<Rightarrow> (nat \<times> real) list \<Rightarrow> pyexc + pyval" where
  "named_probabilities self probabilities =
     bind_exc (named_items self probabilities) (\<lambda>kvs. Inr (PDict (dict_of_items kvs)))"

definition format_result ::
  "prediction_service \<Rightarrow> nat \<times> real \<times> (nat \<times> real) list \<Rightarrow> string \<Rightarrow> pyval \<Rightarrow> string
     \<Rightarrow> pyexc + pyval" where
  "format_result self p source_key source ts =
     (case p of (predicted_idx, confidence, probabilities) \<Rightarrow>
        bind_exc (class_name self predicted_idx) (\<lambda>c.
          bind_exc (named_probabilities self probabilities) (\<lambda>pd.
            Inr (PDict [(''success'', PBool True),
                        (''predicted_class'', PStr c),
                        (''predicted_index'', PInt (int predicted_idx)),
                        (''confidence'', PFloat confidence),
                        (''probabilities'', pd),
                        (source_key, source),
                        (''timestamp'', PStr ts)]))))"

definition failure_result :: "pyexc \<Rightarrow> string \<Rightarrow> pyval \<Rightarrow> string \<Rightarrow> pyval" where
  "failure_result e source_key source ts =
     PDict [(''success'', PBool False),
            (''error'', PStr (exc_msg e)),
            (source_key, source),
            (''timestamp'', PStr ts)]"

text \<open>
  Every call reads the clock once, in the branch it ends in: the functions take the number
  of readings made so far and return it increased.
\<close>

definition predict_image_body :: "env \<Rightarrow> prediction_service \<Rightarrow> string \<Rightarrow> nat \<Rightarrow> pyexc + pyval" where
  "predict_image_body E self image_path n =
     bind_exc (preprocess_single_image E (svc_img_size self) image_path True) (\<lambda>img_array.
       bind_exc (predict E (svc_classifier self) img_array) (\<lambda>p.
         format_result self p ''image_path'' (PStr image_path) (clock E n)))"

definition predict_image :: "env \<Rightarrow> prediction_service \<Rightarrow> string \<Rightarrow> nat \<Rightarrow> (pyexc + pyval) \<times> nat" where
  "predict_image E self image_path n =
     (try_except (predict_image_body E self image_path n)
        (\<lambda>e. Inr (failure_result e ''image_path'' (PStr image_path) (clock E n))),
      Suc n)"

text \<open>\<^verbatim>\<open>getattr(image_file, 'filename', 'unknown')\<close>\<close>

definition filename_of :: "upload \<Rightarrow> pyval" where
  "filename_of image_file =
     (case upload_filename image_file of None \<Rightarrow> PStr ''unknown'' | Some f \<Rightarrow> f)"

definition predict_uploaded_image_body :: "env \<Rightarrow> prediction_service \<Rightarrow> upload \<Rightarrow> nat \<Rightarrow> pyexc + pyval" where
  "predict_uploaded_image_body E self image_file n =
     bind_exc (preprocess_uploaded_image E (svc_img_size self) image_file True) (\<lambda>img_array.
       bind_exc (predict E (svc_classifier self) img_array) (\<lambda>p.
         format_result self p ''filename'' (filename_of image_file) (clock E n)))"

definition predict_uploaded_image ::
  "env \<Rightarrow> prediction_service \<Rightarrow> upload \<Rightarrow> nat \<Rightarrow> (pyexc + pyval) \<times> nat" where
  "predict_uploaded_image E self image_file n =
     (try_except (predict_uploaded_image_body E self image_file n)
        (\<lambda>e. Inr (failure_result e ''filename'' (filename_of image_file) (clock E n))),
      Suc n)"

text \<open>The loop of \<^verbatim>\<open>predict_batch\<close>: a result that raised would end the loop.\<close>

fun predict_batch_loop ::
  "env \<Rightarrow> prediction_service \<Rightarrow> string list \<Rightarrow> pyval list \<Rightarrow> nat \<Rightarrow> (pyexc + pyval list) \<times> nat" where
  "predict_batch_loop E self [] results n = (Inr results, n)"
| "predict_batch_loop E self (image_path # rest) results n =
     (case predict_image E self image_path n of
        (Inl e, n') \<Rightarrow> (Inl e, n')
      | (Inr result, n') \<Rightarrow> predict_batch_loop E self rest (results @ [result]) n')"

definition predict_batch ::
  "env \<Rightarrow> prediction_service \<Rightarrow> string list \<Rightarrow> nat \<Rightarrow> (pyexc + pyval list) \<times> nat" where
  "predict_batch E self image_paths n = predict_batch_loop E self image_paths [] n"

text \<open>Reading a result record.\<close>

definition field :: "pyval \<Rightarrow> string \<Rightarrow> pyval option" where
  "field r k = (case r of PDict d \<Rightarrow> dict_get d k | _ \<Rightarrow> None)"

definition predict_image_result :: "env \<Rightarrow> prediction_service \<Rightarrow> string \<Rightarrow> nat \<Rightarrow> pyval" where
  "predict_image_result E self image_path n =
     (case predict_image_body E self image_path n of
        Inl e \<Rightarrow> failure_result e ''image_path'' (PStr image_path) (clock E n)
      | Inr r \<Rightarrow> r)"

definition predict_uploaded_image_result :: "env \<Rightarrow> prediction_service \<Rightarrow> upload \<Rightarrow> nat \<Rightarrow> pyval" where
  "predict_uploaded_image_result E self image_file n =
     (case predict_uploaded_image_body E self image_file n of
        Inl e \<Rightarrow> failure_result e ''filename'' (filename_of image_file) (clock E n)
      | Inr r \<Rightarrow> r)"

definition well_formed_record :: "pyval \<Rightarrow> string \<Rightarrow> pyval \<Rightarrow> string \<Rightarrow> bool" where
  "well_formed_record r k src ts \<longleftrightarrow>
     field r k = Some src \<and> field r ''timestamp'' = Some (PStr ts) \<and>
     (field r ''success'' = Some (PBool True) \<or>
      field r ''success'' = Some (PBool False) \<and> (\<exists>m. field r ''error'' = Some (PStr m)))"

definition example_env :: env where
  "example_env =
     \<lparr>open_path = (\<lambda>p. if p = ''cat.png''
                         then Inr \<lparr>im_size = (2, 1),
                                   im_raster = Bands Mode_L (\<lambda>x y. [if x = 0 then 0 else 255])\<rparr>
                         else if p = ''corrupt.png''
                         then Inl (PyExc ''UnidentifiedImageError'' ''cannot identify image file'')
                         else Inl (PyExc ''FileNotFoundError'' ''No such file'')),
      open_bytes = (\<lambda>bs. if bs = []
                          then Inl (PyExc ''UnidentifiedImageError'' ''cannot identify image file'')
                          else Inr \<lparr>im_size = (1, 1), im_raster = RGB (\<lambda>x y. (255, 0, 128))\<rparr>),
      to_rgb = (\<lambda>m bs. case bs of [l] \<Rightarrow> (l, l, l) | _ \<Rightarrow> (0, 0, 0)),
      resample = (\<lambda>old f new x y. f (x * fst old div fst new) (y * snd old div snd new)),
      forward = (\<lambda>m a. Inr [[1/4, 3/4]]),
      clock = (\<lambda>n. ''T'' @ show_nat n)\<rparr>"

definition example_service :: prediction_service where
  "example_service =
     \<lparr>svc_img_size = (2, 3),
      svc_classifier = \<lparr>img_size = (2, 3), num_classes = 2, learning_rate = 1/10000, model = Some 0\<rparr>,
      class_indices = [(''cat'', 0), (''dog'', 1)],
      index_to_class = reverse_mapping [(''cat'', 0), (''dog'', 1)]\<rparr>"










text \<open>
  A network whose last layer is no softmax, such as \<^verbatim>\<open>load_model\<close> accepts from a file:
  three independent sigmoid outputs.
\<close>

definition sigmoid_env :: env where
  "sigmoid_env = example_env\<lparr>forward := (\<lambda>m a. Inr [[1/2, 1/2, 1/2]])\<rparr>"

definition example_array :: ndarray where
  "example_array = \<lparr>shape = [1, 1, 1, 3], data = [1, 0, 1/2]\<rparr>"



section \<open>prediction.py: get_prediction_statistics\<close>

text \<open>
  The reductions of numpy that the statistics use are taken from the library. The log file
  is what the file system holds at the path: nothing, or a file whose reading by
  \<^verbatim>\<open>json.load\<close> gives a value or raises.
\<close>

record numpy =
  np_mean :: "pyval list \<Rightarrow> pyexc + pyval"
  np_min :: "pyval list \<Rightarrow> pyexc + pyval"
  np_max :: "pyval list \<Rightarrow> pyexc + pyval"

definition quoted :: "string \<Rightarrow> string" where
  "quoted s = CHR 0x27 # s @ [CHR 0x27]"

fun type_name :: "pyval \<Rightarrow> string" where
  "type_name PNone = ''NoneType''"
| "type_name (PBool b) = ''bool''"
| "type_name (PInt i) = ''int''"
| "type_name (PFloat f) = ''float''"
| "type_name (PStr s) = ''str''"
| "type_name (PList xs) = ''list''"
| "type_name (PDict d) = ''dict''"
| "type_name (PMap d) = ''dict''"

text \<open>Truth value of an object, as \<^verbatim>\<open>if\<close> tests it.\<close>

fun truthy :: "pyval \<Rightarrow> bool" where
  "truthy PNone = False"
| "truthy (PBool b) = b"
| "truthy (PInt i) = (i \<noteq> 0)"
| "truthy (PFloat f) = (f \<noteq> 0)"
| "truthy (PStr s) = (s \<noteq> [])"
| "truthy (PList xs) = (xs \<noteq> [])"
| "truthy (PDict d) = (d \<noteq> [])"
| "truthy (PMap d) = (d \<noteq> [])"

text \<open>\<^verbatim>\<open>len(v)\<close> and the items that \<^verbatim>\<open>for x in v\<close> visits.\<close>

fun py_len :: "pyval \<Rightarrow> pyexc + nat" where
  "py_len (PStr s) = Inr (length s)"
| "py_len (PList xs) = Inr (length xs)"
| "py_len (PDict d) = Inr (length d)"
| "py_len (PMap d) = Inr (length d)"
| "py_len v = Inl (PyExc ''TypeError'' (''object of type '' @ quoted (type_name v) @ '' has no len()''))"

fun py_iter :: "pyval \<Rightarrow> pyexc + pyval list" where
  "py_iter (PStr s) = Inr (map (\<lambda>c. PStr [c]) s)"
| "py_iter (PList xs) = Inr xs"
| "py_iter (PDict d) = Inr (map (\<lambda>(k, v). PStr k) d)"
| "py_iter (PMap d) = Inr (map fst d)"
| "py_iter v = Inl (PyExc ''TypeError'' (quoted (type_name v) @ '' object is not iterable''))"

text \<open>\<^verbatim>\<open>log.get(key, default)\<close>: only a dict has the method.\<close>

fun py_get :: "pyval \<Rightarrow> string \<Rightarrow> pyval \<Rightarrow> pyexc + pyval" where
  "py_get (PDict d) key dflt =
     Inr (case dict_get d key of None \<Rightarrow> dflt | Some v \<Rightarrow> v)"
| "py_get (PMap d) key dflt =
     Inr (case dict_get d (PStr key) of None \<Rightarrow> dflt | Some v \<Rightarrow> v)"
| "py_get v key dflt =
     Inl (PyExc ''AttributeError'' (quoted (type_name v) @ '' object has no attribute '' @ quoted ''get''))"

text \<open>
  Keys of a dict are compared as Python compares them: \<^verbatim>\<open>True\<close>, \<^verbatim>\<open>1\<close> and \<^verbatim>\<open>1.0\<close> are
  one key. Lists and dicts are not hashable.
\<close>

fun key_norm :: "pyval \<Rightarrow> pyval" where
  "key_norm (PBool b) = PInt (if b then 1 else 0)"
| "key_norm (PFloat f) = (if f = of_int \<lfloor>f\<rfloor> then PInt \<lfloor>f\<rfloor> else PFloat f)"
| "key_norm v = v"

fun hashable :: "pyval \<Rightarrow> bool" where
  "hashable (PList xs) = False"
| "hashable (PDict d) = False"
| "hashable (PMap d) = False"
| "hashable v = True"

text \<open>\<^verbatim>\<open>class_counts[pred_class] = class_counts.get(pred_class, 0) + 1\<close>\<close>

fun counts_bump :: "(pyval \<times> int) list \<Rightarrow> pyval \<Rightarrow> (pyval \<times> int) list" where
  "counts_bump [] k = [(k, 1)]"
| "counts_bump ((k', c) # cc) k =
     (if key_norm k' = key_norm k then (k', c + 1) # cc else (k', c) # counts_bump cc k)"

definition count_class :: "(pyval \<times> int) list \<Rightarrow> pyval \<Rightarrow> pyexc + (pyval \<times> int) list" where
  "count_class class_counts pred_class =
     (if hashable pred_class then Inr (counts_bump class_counts pred_class)
      else Inl (PyExc ''TypeError'' (''unhashable type: '' @ quoted (type_name pred_class))))"

text \<open>A \<^verbatim>\<open>for\<close> loop over a list, its body a step on the loop's variables that may raise.\<close>

primrec for_loop :: "('s \<Rightarrow> 'a \<Rightarrow> pyexc + 's) \<Rightarrow> 'a list \<Rightarrow> 's \<Rightarrow> pyexc + 's" where
  "for_loop step [] s = Inr s"
| "for_loop step (x # xs) s = bind_exc (step s x) (for_loop step xs)"

text \<open>\<^verbatim>\<open>sum(1 for log in logs if log.get('success', False))\<close>\<close>

definition count_step :: "nat \<Rightarrow> pyval \<Rightarrow> pyexc + nat" where
  "count_step acc log' =
     bind_exc (py_get log' ''success'' (PBool False)) (\<lambda>s. Inr (if truthy s then acc + 1 else acc))"

definition stats_step ::
  "(pyval \<times> int) list \<times> pyval list \<Rightarrow> pyval \<Rightarrow> pyexc + (pyval \<times> int) list \<times> pyval list" where
  "stats_step st log' =
     (case st of (class_counts, confidences) \<Rightarrow>
        bind_exc (py_get log' ''success'' (PBool False)) (\<lambda>s.
          if truthy s then
            bind_exc (py_get log' ''predicted_class'' PNone) (\<lambda>pred_class.
              bind_exc (if truthy pred_class then count_class class_counts pred_class
                        else Inr class_counts) (\<lambda>class_counts.
                bind_exc (py_get log' ''confidence'' PNone) (\<lambda>confidence.
                  Inr (class_counts,
                       if confidence \<noteq> PNone then confidences @ [confidence]
                       else confidences))))
          else Inr (class_counts, confidences)))"

definition reduce_or_zero :: "(pyval list \<Rightarrow> pyexc + pyval) \<Rightarrow> pyval list \<Rightarrow> pyexc + pyval" where
  "reduce_or_zero f confidences = (if confidences \<noteq> [] then f confidences else Inr (PInt 0))"

definition statistics_of :: "numpy \<Rightarrow> pyval \<Rightarrow> pyexc + pyval" where
  "statistics_of np logs =
     bind_exc (py_len logs) (\<lambda>total_predictions.
       bind_exc (py_iter logs) (\<lambda>items.
         bind_exc (for_loop count_step items 0) (\<lambda>successful_predictions.
           bind_exc (for_loop stats_step items ([], [])) (\<lambda>(class_counts, confidences).
             bind_exc (reduce_or_zero (np_mean np) confidences) (\<lambda>average.
               bind_exc (reduce_or_zero (np_min np) confidences) (\<lambda>minimum.
                 bind_exc (reduce_or_zero (np_max np) confidences) (\<lambda>maximum.
                   Inr (PDict
                     [(''total_predictions'', PInt (int total_predictions)),
                      (''successful_predictions'', PInt (int successful_predictions)),
                      (''failed_predictions'',
                         PInt (int total_predictions - int successful_predictions)),
                      (''class_distribution'', PMap (map (\<lambda>(k, c). (k, PInt c)) class_counts)),
                      (''average_confidence'', average),
                      (''min_confidence'', minimum),
                      (''max_confidence'', maximum)]))))))))"

definition get_prediction_statistics ::
  "numpy \<Rightarrow> (string \<Rightarrow> (pyexc + pyval) option) \<Rightarrow> string \<Rightarrow> pyexc + pyval" where
  "get_prediction_statistics np files log_path =
     try_except
       (case files log_path of
          None \<Rightarrow> Inr (PDict [(''error'', PStr ''No prediction logs found'')])
        | Some content \<Rightarrow> bind_exc content (statistics_of np))
       (\<lambda>e. Inr (PDict [(''error'', PStr (exc_msg e))]))"

text \<open>
  What the statistics say of a log that is an array of records: which records count as
  successful, the class names and the confidences that the loop collects from them.
\<close>

definition successful :: "pyval \<Rightarrow> bool" where
  "successful log' =
     (case log' of
        PDict d \<Rightarrow> truthy (case dict_get d ''success'' of None \<Rightarrow> PBool False | Some v \<Rightarrow> v)
      | _ \<Rightarrow> False)"

definition class_of :: "pyval \<Rightarrow> string list" where
  "class_of log' =
     (if successful log'
      then (case field log' ''predicted_class'' of
              Some (PStr c) \<Rightarrow> (if c \<noteq> [] then [c] else [])
            | _ \<Rightarrow> [])
      else [])"

definition confidence_of :: "pyval \<Rightarrow> pyval list" where
  "confidence_of log' =
     (if successful log'
      then (case field log' ''confidence'' of
              Some c \<Rightarrow> (if c \<noteq> PNone then [c] else [])
            | None \<Rightarrow> [])
      else [])"

definition log_record :: "pyval \<Rightarrow> bool" where
  "log_record log' =
     (case log' of
        PDict d \<Rightarrow> (case dict_get d ''predicted_class'' of
                      None \<Rightarrow> True | Some PNone \<Rightarrow> True | Some (PStr c) \<Rightarrow> True | _ \<Rightarrow> False)
      | _ \<Rightarrow> False)"

fun number_of :: "pyval \<Rightarrow> real" where
  "number_of (PFloat f) = f"
| "number_of (PInt i) = real_of_int i"
| "number_of v = 0"

definition example_numpy :: numpy where
  "example_numpy =
     \<lparr>np_mean = (\<lambda>vs. Inr (PFloat (sum_list (map number_of vs) / real (length vs)))),
      np_min = (\<lambda>vs. Inr (PFloat (fold min (map number_of vs) (number_of (hd vs))))),
      np_max = (\<lambda>vs. Inr (PFloat (fold max (map number_of vs) (number_of (hd vs)))))\<rparr>"

definition example_log :: pyval where
  "example_log =
     PList [PDict [(''success'', PBool True), (''predicted_class'', PStr ''cat''),
                   (''confidence'', PFloat (3/4))],
            PDict [(''success'', PBool False), (''error'', PStr ''Error preprocessing image'')],
            PDict [(''success'', PBool True), (''predicted_class'', PStr ''cat''),
                   (''confidence'', PFloat (1/4))]]"

definition empty_log_files :: "string \<Rightarrow> (pyexc + pyval) option" where
  "empty_log_files p = (if p = ''prediction_log.json'' then Some (Inr (PList [])) else None)"

definition example_log_files :: "string \<Rightarrow> (pyexc + pyval) option" where
  "example_log_files p =
     (if p = ''prediction_log.json'' then Some (Inr example_log)
      else if p = ''truncated.json''
      then Some (Inl (PyExc ''JSONDecodeError'' ''Expecting value: line 1 column 1 (char 0)''))
      else None)"

definition zero_statistics :: pyval where
  "zero_statistics =
     PDict [(''total_predictions'', PInt 0),
            (''successful_predictions'', PInt 0),
            (''failed_predictions'', PInt 0),
            (''class_distribution'', PMap []),
            (''average_confidence'', PInt 0),
            (''min_confidence'', PInt 0),
            (''max_confidence'', PInt 0)]"

definition no_logs_marker :: pyval where
  "no_logs_marker = PDict [(''error'', PStr ''No prediction logs found'')]"

definition text_keys :: "(pyval \<times> int) list \<Rightarrow> bool" where
  "text_keys cc = list_all (\<lambda>(k, c). case k of PStr s \<Rightarrow> True | _ \<Rightarrow> False) cc"

definition statistics_record ::
  "nat \<Rightarrow> nat \<Rightarrow> (pyval \<times> pyval) list \<Rightarrow> pyval \<Rightarrow> pyval \<Rightarrow> pyval \<Rightarrow> pyval" where
  "statistics_record n ok distribution average minimum maximum =
     PDict [(''total_predictions'', PInt (int n)),
            (''successful_predictions'', PInt (int ok)),
            (''failed_predictions'', PInt (int n - int ok)),
            (''class_distribution'', PMap distribution),
            (''average_confidence'', average),
            (''min_confidence'', minimum),
            (''max_confidence'', maximum)]"

definition example_logs :: "pyval list" where
  "example_logs = (case example_log of PList logs \<Rightarrow> logs | _ \<Rightarrow> [])"

section \<open>model.py: save_model and load_model\<close>

text \<open>
  \<^verbatim>\<open>s.replace(old, new)\<close> for a pattern that is not empty: every occurrence, from the left,
  without overlap. \<^verbatim>\<open>s.endswith(suffix)\<close>. \<^verbatim>\<open>os.path.dirname\<close> of a POSIX path.
\<close>

fun replace_str :: "string \<Rightarrow> string \<Rightarrow> string \<Rightarrow> string" where
  "replace_str old new [] = []"
| "replace_str old new (c # cs) =
     (if old \<noteq> [] \<and> take (length old) (c # cs) = old
      then new @ replace_str old new (drop (length old - 1) cs)
      else c # replace_str old new cs)"

definition endswith :: "string \<Rightarrow> string \<Rightarrow> bool" where
  "endswith s suffix \<longleftrightarrow>
     length suffix \<le> length s \<and> drop (length s - length suffix) s = suffix"

definition rstrip_slash :: "string \<Rightarrow> string" where
  "rstrip_slash s = rev (dropWhile (\<lambda>c. c = CHR ''/'') (rev s))"

definition dirname :: "string \<Rightarrow> string" where
  "dirname p =
     (let head = rev (dropWhile (\<lambda>c. c \<noteq> CHR ''/'') (rev p))
      in if head \<noteq> [] \<and> \<not> list_all (\<lambda>c. c = CHR ''/'') head then rstrip_slash head else head)"

text \<open>
  The files the code reads and writes: a serialized network (named by a number), a metadata
  sidecar, a class-index file. A sidecar holds, for each key it has, a value of the kind that
  \<^verbatim>\<open>save_model\<close> writes; \<^verbatim>\<open>json.dump\<close> writes the tuple \<^verbatim>\<open>img_size\<close> as a list and
  \<^verbatim>\<open>load_model\<close> makes a tuple of it again.
\<close>

record metadata =
  md_img_size :: "(nat \<times> nat) option"
  md_num_classes :: "int option"
  md_learning_rate :: "real option"
  md_saved_at :: "string option"

datatype stored_file =
    ModelFile nat
  | MetadataFile metadata
  | ClassIndicesFile "(string \<times> int) list"

type_synonym files = "string \<Rightarrow> stored_file option"

text \<open>
  \<^verbatim>\<open>os.makedirs(name, exist_ok=True)\<close>: the empty name raises, and so does a name taken by
  a file; directories themselves are not kept in the model. Hence writing a file never fails
  in the model for want of its directory, as it does in Python when the sidecar path lies in
  another directory than the model path; the refusal by Keras 3 of a file name that ends
  neither in \<^verbatim>\<open>.h5\<close> nor in \<^verbatim>\<open>.keras\<close> is not modelled either.
\<close>

definition makedirs :: "files \<Rightarrow> string \<Rightarrow> pyexc + unit" where
  "makedirs fs name =
     (if name = [] then Inl (PyExc ''FileNotFoundError'' ''[Errno 2] No such file or directory: '')
      else if fs name \<noteq> None then Inl (PyExc ''FileExistsError'' (''[Errno 17] File exists: '' @ name))
      else Inr ())"

definition save_model ::
  "classifier \<Rightarrow> files \<Rightarrow> string \<Rightarrow> string \<Rightarrow> bool \<Rightarrow> string \<Rightarrow> pyexc + files" where
  "save_model self fs filepath save_format include_metadata now =
     (case model self of
        None \<Rightarrow> Inl (PyExc ''ValueError'' ''No model to save.'')
      | Some m \<Rightarrow>
          bind_exc (makedirs fs (dirname filepath)) (\<lambda>_.
            bind_exc
              (if save_format = ''h5'' then Inr (fs(filepath \<mapsto> ModelFile m))
               else if save_format = ''tf'' then Inr (fs(filepath \<mapsto> ModelFile m))
               else Inl (PyExc ''ValueError''
                          (''save_format must be '' @ quoted ''h5'' @ '' or '' @ quoted ''tf'')))
              (\<lambda>fs.
                 if include_metadata then
                   let metadata = \<lparr>md_img_size = Some (img_size self),
                                    md_num_classes = Some (num_classes self),
                                    md_learning_rate = Some (learning_rate self),
                                    md_saved_at = Some now\<rparr>;
                       metadata_path = replace_str ''.h5'' ''_metadata.json'' filepath
                   in Inr (fs(metadata_path \<mapsto> MetadataFile metadata))
                 else Inr fs)))"

text \<open>
  \<^verbatim>\<open>keras.models.load_model\<close>: only a serialized network can be read as one; the class and
  text of the exception stand for whatever the library raises on another file. The sidecar
  path may hold a file of another kind: a class-index file is a JSON object too, read with
  the same \<^verbatim>\<open>get\<close> calls, and a serialized network is no text.
\<close>

definition keras_load_model :: "files \<Rightarrow> string \<Rightarrow> pyexc + nat" where
  "keras_load_model fs filepath =
     (case fs filepath of
        Some (ModelFile m) \<Rightarrow> Inr m
      | _ \<Rightarrow> Inl (PyExc ''ValueError'' (''File not found or not a model: '' @ filepath)))"

definition load_model :: "classifier \<Rightarrow> files \<Rightarrow> string \<Rightarrow> pyexc + classifier" where
  "load_model self fs filepath =
     (if fs filepath = None
      then Inl (PyExc ''FileNotFoundError'' (''Model file not found: '' @ filepath))
      else
        bind_exc (try_except
                    (if endswith filepath ''.h5'' then keras_load_model fs filepath
                     else keras_load_model fs filepath)
                    (\<lambda>e. Inl e)) (\<lambda>m.
          let self = self\<lparr>model := Some m\<rparr>;
              metadata_path = replace_str ''.keras'' ''_metadata.json''
                                (replace_str ''.h5'' ''_metadata.json'' filepath)
          in case fs metadata_path of
               None \<Rightarrow> Inr self
             | Some (MetadataFile metadata) \<Rightarrow>
                 Inr (self\<lparr>img_size := (case md_img_size metadata of
                                           None \<Rightarrow> img_size self | Some v \<Rightarrow> v),
                            num_classes := (case md_num_classes metadata of
                                              None \<Rightarrow> num_classes self | Some v \<Rightarrow> v),
                            learning_rate := (case md_learning_rate metadata of
                                                None \<Rightarrow> learning_rate self | Some v \<Rightarrow> v)\<rparr>)
             | Some (ClassIndicesFile ci) \<Rightarrow>
                 (case dict_get ci ''img_size'' of
                    Some v \<Rightarrow> Inl (PyExc ''TypeError'' (quoted ''int'' @ '' object is not iterable''))
                  | None \<Rightarrow>
                      Inr (self\<lparr>num_classes := (case dict_get ci ''num_classes'' of
                                                     None \<Rightarrow> num_classes self | Some v \<Rightarrow> v),
                                 learning_rate := (case dict_get ci ''learning_rate'' of
                                                     None \<Rightarrow> learning_rate self
                                                   | Some v \<Rightarrow> real_of_int v)\<rparr>))
             | Some (ModelFile _) \<Rightarrow>
                 Inl (PyExc ''UnicodeDecodeError'' ''utf-8 codec cannot decode byte'')))"

text \<open>A classifier as its constructor leaves it, with the default arguments.\<close>

definition new_classifier :: "nat \<times> nat \<Rightarrow> int \<Rightarrow> real \<Rightarrow> classifier" where
  "new_classifier sz n rate = \<lparr>img_size = sz, num_classes = n, learning_rate = rate, model = None\<rparr>"

definition trained_classifier :: classifier where
  "trained_classifier = \<lparr>img_size = (128, 128), num_classes = 3, learning_rate = 1/1000, model = Some 7\<rparr>"

definition no_files :: files where
  "no_files = (\<lambda>p. None)"

definition save_then_load :: "classifier \<Rightarrow> classifier \<Rightarrow> files \<Rightarrow> string \<Rightarrow> string \<Rightarrow> pyexc + classifier" where
  "save_then_load self fresh fs filepath now =
     bind_exc (save_model self fs filepath ''h5'' True now) (\<lambda>fs. load_model fresh fs filepath)"

definition saved_at_example :: string where
  "saved_at_example = ''2024-01-01 00:00:00''"

section \<open>app.py: the retraining job\<close>

record retraining_status =
  is_running :: bool
  progress :: int
  message :: string
  last_retrain_time :: "string option"

text \<open>
  The globals of the application, with the files on disk and the retraining threads that
  have been started and have not finished: \<open>started\<close> counts those that have not yet
  executed their first statement, \<open>working\<close> those in the body of the job.
\<close>

record app =
  status :: retraining_status
  prediction_service :: "prediction_service option"
  model_start_time :: "string option"
  disk :: files
  started :: nat
  working :: nat

text \<open>
  What the job takes from outside: the two paths fixed at import, the outcome of building
  the data generators, the outcome of \<^verbatim>\<open>model.fit\<close> on a network (the retrained network, or
  an exception), and the readings of the clock in the formats the job uses.
\<close>

record world =
  MODEL_PATH :: string
  CLASS_INDICES_PATH :: string
  create_train_generator :: "pyexc + unit"
  fit :: "nat \<Rightarrow> pyexc + nat"
  strftime_compact :: string
  strftime_saved_at :: string
  isoformat_now :: string

text \<open>\<^verbatim>\<open>ImageClassifier.retrain\<close>: load the pretrained model, then fit.\<close>

definition retrain_classifier :: "world \<Rightarrow> classifier \<Rightarrow> files \<Rightarrow> string \<Rightarrow> pyexc + classifier" where
  "retrain_classifier W self fs pretrained_model_path =
     bind_exc (load_model self fs pretrained_model_path) (\<lambda>self.
       case model self of
         None \<Rightarrow> Inl (PyExc ''AttributeError'' ''NoneType object has no attribute layers'')
       | Some m \<Rightarrow> bind_exc (fit W m) (\<lambda>m'. Inr (self\<lparr>model := Some m'\<rparr>)))"

text \<open>
  The constructor of \<^verbatim>\<open>PredictionService\<close>, with its default image size. The class-index
  file holds a JSON object from class names to integers; a file of another kind at its path
  is taken to make the constructor raise.
\<close>

definition PredictionService_init :: "files \<Rightarrow> string \<Rightarrow> string \<Rightarrow> pyexc + prediction_service" where
  "PredictionService_init fs model_path class_indices_path =
     bind_exc (load_model (new_classifier (128, 128) 2 (1/10000)) fs model_path) (\<lambda>clf.
       case fs class_indices_path of
         None \<Rightarrow> Inl (PyExc ''FileNotFoundError''
                        (''[Errno 2] No such file or directory: '' @ class_indices_path))
       | Some (ClassIndicesFile ci) \<Rightarrow>
           Inr \<lparr>svc_img_size = (128, 128), svc_classifier = clf, class_indices = ci,
                index_to_class = reverse_mapping ci\<rparr>
       | Some _ \<Rightarrow> Inl (PyExc ''JSONDecodeError'' ''Expecting value: line 1 column 1 (char 0)''))"

definition initialize_model :: "world \<Rightarrow> app \<Rightarrow> bool \<times> app" where
  "initialize_model W s =
     (if disk s (MODEL_PATH W) = None then (False, s)
      else case PredictionService_init (disk s) (MODEL_PATH W) (CLASS_INDICES_PATH W) of
             Inl e \<Rightarrow> (False, s)
           | Inr svc \<Rightarrow> (True, s\<lparr>prediction_service := Some svc,
                                 model_start_time := Some (isoformat_now W)\<rparr>))"

definition set_progress :: "int \<Rightarrow> string \<Rightarrow> app \<Rightarrow> app" where
  "set_progress p msg s = s\<lparr>status := (status s)\<lparr>progress := p, message := msg\<rparr>\<rparr>"

text \<open>
  The \<^verbatim>\<open>try\<close> block of \<^verbatim>\<open>perform_retraining\<close>: the exception that ended it, if any, and
  the state it left.
\<close>

definition perform_retraining_try :: "world \<Rightarrow> app \<Rightarrow> pyexc option \<times> app" where
  "perform_retraining_try W s =
     (let s = s\<lparr>status := (status s)\<lparr>is_running := True, progress := 0,
                                     message := ''Initializing retraining...''\<rparr>\<rparr>;
          classifier = new_classifier (224, 224) 2 (1/10000);
          s = set_progress 10 ''Loading data...'' s
      in case create_train_generator W of
           Inl e \<Rightarrow> (Some e, s)
         | Inr _ \<Rightarrow>
             let s = set_progress 30 ''Retraining model...'' s
             in case retrain_classifier W classifier (disk s) (MODEL_PATH W) of
                  Inl e \<Rightarrow> (Some e, s)
                | Inr classifier \<Rightarrow>
                    let s = set_progress 80 ''Saving retrained model...'' s;
                        new_model_path =
                          replace_str ''.h5'' (''_retrained_'' @ strftime_compact W @ ''.h5'')
                            (MODEL_PATH W)
                    in case save_model classifier (disk s) new_model_path ''h5'' True
                              (strftime_saved_at W) of
                         Inl e \<Rightarrow> (Some e, s)
                       | Inr fs \<Rightarrow>
                           let s = s\<lparr>disk := fs\<rparr>
                           in case save_model classifier (disk s) (MODEL_PATH W) ''h5'' True
                                     (strftime_saved_at W) of
                                Inl e \<Rightarrow> (Some e, s)
                              | Inr fs \<Rightarrow>
                                  let s = s\<lparr>disk := fs\<rparr>;
                                      s = set_progress 90 ''Reloading model...'' s;
                                      s = snd (initialize_model W s);
                                      s = set_progress 100 ''Retraining completed successfully!'' s;
                                      s = s\<lparr>status := (status s)
                                             \<lparr>last_retrain_time := Some (isoformat_now W)\<rparr>\<rparr>
                                  in (None, s))"

text \<open>The \<^verbatim>\<open>except\<close> and \<^verbatim>\<open>finally\<close> clauses.\<close>

definition perform_retraining :: "world \<Rightarrow> app \<Rightarrow> app" where
  "perform_retraining W s =
     (let (raised, s) = perform_retraining_try W s;
          s = (case raised of
                 None \<Rightarrow> s
               | Some e \<Rightarrow> s\<lparr>status := (status s)
                                \<lparr>message := ''Error during retraining: '' @ exc_msg e,
                                 progress := 0\<rparr>\<rparr>)
      in s\<lparr>status := (status s)\<lparr>is_running := False\<rparr>\<rparr>)"

section \<open>app.py: the retrain route\<close>

datatype http_method = GET | POST

datatype response =
    Redirect string "(string \<times> string) list"
  | Render string retraining_status

text \<open>
  The view function. \<^verbatim>\<open>thread.start()\<close> starts a thread that will run
  \<^verbatim>\<open>perform_retraining\<close>; the view returns without waiting for it.
\<close>

definition retrain :: "http_method \<Rightarrow> app \<Rightarrow> response \<times> app" where
  "retrain method' s =
     (if method' = POST then
        if is_running (status s)
        then (Redirect ''retrain'' [(''Retraining already in progress'', ''warning'')], s)
        else (Redirect ''retrain''
                [(''Retraining started! This may take several minutes.'', ''info'')],
              s\<lparr>started := started s + 1\<rparr>)
      else (Render ''retrain.html'' (status s), s))"

text \<open>
  The moves of the running application: a request to the route, a started thread executing
  the first statements of the job (which set \<^verbatim>\<open>is_running\<close>), and a working thread running
  the job to its end.
\<close>

datatype event = Request http_method | Job_begins | Job_ends

definition fire :: "world \<Rightarrow> event \<Rightarrow> app \<Rightarrow> app" where
  "fire W ev s =
     (case ev of
        Request m \<Rightarrow> snd (retrain m s)
      | Job_begins \<Rightarrow>
          (if started s = 0 then s
           else s\<lparr>started := started s - 1, working := working s + 1,
                  status := (status s)\<lparr>is_running := True, progress := 0,
                                        message := ''Initializing retraining...''\<rparr>\<rparr>)
      | Job_ends \<Rightarrow>
          (if working s = 0 then s
           else (perform_retraining W s)\<lparr>working := working s - 1\<rparr>))"

definition run :: "world \<Rightarrow> event list \<Rightarrow> app \<Rightarrow> app" where
  "run W evs s = fold (fire W) evs s"

definition jobs_alive :: "app \<Rightarrow> nat" where
  "jobs_alive s = started s + working s"

definition idle_app :: app where
  "idle_app =
     \<lparr>status = \<lparr>is_running = False, progress = 0, message = [], last_retrain_time = None\<rparr>,
      prediction_service = None, model_start_time = None, disk = no_files,
      started = 0, working = 0\<rparr>"

definition example_world :: world where
  "example_world =
     \<lparr>MODEL_PATH = ''models/image_classifier_model.h5'',
      CLASS_INDICES_PATH = ''models/class_indices.json'',
      create_train_generator = Inl (PyExc ''FileNotFoundError'' ''No such directory: data/train''),
      fit = (\<lambda>m. Inr (m + 1)),
      strftime_compact = ''20240101_000000'',
      strftime_saved_at = ''2024-01-01 00:00:00'',
      isoformat_now = ''2024-01-01T00:00:00''\<rparr>"

definition running_app :: app where
  "running_app = run example_world [Request POST, Job_begins] idle_app"

section \<open>Results of the prediction service\<close>

lemma predict_image_total:
  "predict_image E self image_path n = (Inr (predict_image_result E self image_path n), Suc n)"
  by (simp add: predict_image_def predict_image_result_def try_except_def split: sum.splits)

lemma format_result_fields:
  assumes "format_result self p k src ts = Inr r" and "k \<notin> {''success'', ''predicted_class'', ''predicted_index'', ''confidence'', ''probabilities''}"
     and "k \<noteq> ''timestamp''"
  shows "\<exists>d. r = PDict d \<and> dict_get d ''success'' = Some (PBool True)
            \<and> dict_get d k = Some src \<and> dict_get d ''timestamp'' = Some (PStr ts)"
proof -
  obtain i c ps where p: "p = (i, c, ps)" by (cases p)
  from assms(1) obtain cn pd where
    "r = PDict [(''success'', PBool True), (''predicted_class'', PStr cn),
                (''predicted_index'', PInt (int i)), (''confidence'', PFloat c),
                (''probabilities'', pd), (k, src), (''timestamp'', PStr ts)]"
    unfolding format_result_def p
    by (cases "class_name self i"; cases "named_probabilities self ps") auto
  with assms(2,3) show ?thesis by (auto simp: dict_get_def)
qed

lemma failure_result_fields:
  assumes "k \<noteq> ''success''" "k \<noteq> ''error''" "k \<noteq> ''timestamp''"
  shows "\<exists>d. failure_result e k src ts = PDict d \<and> dict_get d ''success'' = Some (PBool False)
            \<and> dict_get d ''error'' = Some (PStr (exc_msg e))
            \<and> dict_get d k = Some src \<and> dict_get d ''timestamp'' = Some (PStr ts)"
  using assms by (simp add: failure_result_def dict_get_def)

lemma predict_uploaded_image_total:
  "predict_uploaded_image E self image_file n =
     (Inr (predict_uploaded_image_result E self image_file n), Suc n)"
  by (simp add: predict_uploaded_image_def predict_uploaded_image_result_def try_except_def
      split: sum.splits)

lemma predict_image_result_wf:
  "well_formed_record (predict_image_result E self image_path n) ''image_path'' (PStr image_path) (clock E n)"
proof (cases "predict_image_body E self image_path n")
  case (Inl e)
  then show ?thesis
    using failure_result_fields [of "''image_path''" e "PStr image_path" "clock E n"]
    by (auto simp: predict_image_result_def well_formed_record_def field_def)
next
  case (Inr r)
  then obtain p where "format_result self p ''image_path'' (PStr image_path) (clock E n) = Inr r"
    unfolding predict_image_body_def
    by (cases "preprocess_single_image E (svc_img_size self) image_path True";
        cases "predict E (svc_classifier self) (projr (preprocess_single_image E (svc_img_size self) image_path True))")
       auto
  from format_result_fields [OF this] Inr show ?thesis
    by (auto simp: predict_image_result_def well_formed_record_def field_def)
qed

lemma predict_image_result_failure:
  "predict_image_body E self image_path n = Inl e \<Longrightarrow>
     field (predict_image_result E self image_path n) ''success'' = Some (PBool False) \<and>
     field (predict_image_result E self image_path n) ''error'' = Some (PStr (exc_msg e))"
  by (simp add: predict_image_result_def failure_result_def field_def dict_get_def)

lemma body_fails_preprocess:
  "preprocess_single_image E (svc_img_size self) image_path True = Inl e \<Longrightarrow>
   predict_image_body E self image_path n = Inl e"
  by (simp add: predict_image_body_def)

lemma body_fails_predict:
  "preprocess_single_image E (svc_img_size self) image_path True = Inr a \<Longrightarrow>
   predict E (svc_classifier self) a = Inl e \<Longrightarrow>
   predict_image_body E self image_path n = Inl e"
  by (simp add: predict_image_body_def)

lemma predict_batch_loop_eq:
  "predict_batch_loop E self ps acc n =
     (Inr (acc @ map (\<lambda>i. predict_image_result E self (ps ! i) (n + i)) [0..<length ps]),
      n + length ps)"
proof (induction ps arbitrary: acc n)
  case Nil
  show ?case by simp
next
  case (Cons p ps)
  have "map (\<lambda>i. predict_image_result E self ((p # ps) ! i) (n + i)) [0..<length (p # ps)] =
        predict_image_result E self p n #
        map (\<lambda>i. predict_image_result E self (ps ! i) (Suc n + i)) [0..<length ps]"
    by (simp add: upt_conv_Cons map_Suc_upt [symmetric] del: upt_Suc)
  then show ?case
    by (simp add: predict_image_total Cons.IH del: upt_Suc)
qed

lemma predict_uploaded_image_result_wf:
  "well_formed_record (predict_uploaded_image_result E self image_file n) ''filename''
     (filename_of image_file) (clock E n)"
proof (cases "predict_uploaded_image_body E self image_file n")
  case (Inl e)
  then show ?thesis
    using failure_result_fields [of "''filename''" e "filename_of image_file" "clock E n"]
    by (auto simp: predict_uploaded_image_result_def well_formed_record_def field_def)
next
  case (Inr r)
  then obtain p where
    "format_result self p ''filename'' (filename_of image_file) (clock E n) = Inr r"
    unfolding predict_uploaded_image_body_def
    by (cases "preprocess_uploaded_image E (svc_img_size self) image_file True";
        cases "predict E (svc_classifier self)
                 (projr (preprocess_uploaded_image E (svc_img_size self) image_file True))")
       auto
  from format_result_fields [OF this] Inr show ?thesis
    by (auto simp: predict_uploaded_image_result_def well_formed_record_def field_def)
qed

lemma predict_uploaded_image_result_failure:
  "predict_uploaded_image_body E self image_file n = Inl e \<Longrightarrow>
     field (predict_uploaded_image_result E self image_file n) ''success'' = Some (PBool False) \<and>
     field (predict_uploaded_image_result E self image_file n) ''error'' = Some (PStr (exc_msg e))"
  by (simp add: predict_uploaded_image_result_def failure_result_def field_def dict_get_def)

text \<open>
  Claim C1. \<^verbatim>\<open>predict_image\<close> and \<^verbatim>\<open>predict_uploaded_image\<close> never raise: for every
  environment, service, image source and clock state the call returns a record, which
  carries the source identifier (\<^verbatim>\<open>image_path\<close> or \<^verbatim>\<open>filename\<close>) and the timestamp read
  from the clock, and whose \<^verbatim>\<open>success\<close> is true, or false with an \<^verbatim>\<open>error\<close> text. Whenever
  the guarded body raises (preprocessing, the forward pass or the label lookup), the record
  has \<^verbatim>\<open>success\<close> false and the text of that exception as \<^verbatim>\<open>error\<close>.
\<close>

theorem predict_never_raises:
  "(\<exists>r. predict_image E self image_path n = (Inr r, Suc n) \<and>
        well_formed_record r ''image_path'' (PStr image_path) (clock E n) \<and>
        (\<forall>e. predict_image_body E self image_path n = Inl e \<longrightarrow>
             field r ''success'' = Some (PBool False) \<and>
             field r ''error'' = Some (PStr (exc_msg e)))) \<and>
   (\<exists>r. predict_uploaded_image E self image_file n = (Inr r, Suc n) \<and>
        well_formed_record r ''filename'' (filename_of image_file) (clock E n) \<and>
        (\<forall>e. predict_uploaded_image_body E self image_file n = Inl e \<longrightarrow>
             field r ''success'' = Some (PBool False) \<and>
             field r ''error'' = Some (PStr (exc_msg e))))"
proof (rule conjI)
  show "\<exists>r. predict_image E self image_path n = (Inr r, Suc n) \<and>
        well_formed_record r ''image_path'' (PStr image_path) (clock E n) \<and>
        (\<forall>e. predict_image_body E self image_path n = Inl e \<longrightarrow>
             field r ''success'' = Some (PBool False) \<and>
             field r ''error'' = Some (PStr (exc_msg e)))"
    by (rule exI [of _ "predict_image_result E self image_path n"])
       (simp add: predict_image_total predict_image_result_wf predict_image_result_failure)
  show "\<exists>r. predict_uploaded_image E self image_file n = (Inr r, Suc n) \<and>
        well_formed_record r ''filename'' (filename_of image_file) (clock E n) \<and>
        (\<forall>e. predict_uploaded_image_body E self image_file n = Inl e \<longrightarrow>
             field r ''success'' = Some (PBool False) \<and>
             field r ''error'' = Some (PStr (exc_msg e)))"
    by (rule exI [of _ "predict_uploaded_image_result E self image_file n"])
       (simp add: predict_uploaded_image_total predict_uploaded_image_result_wf
          predict_uploaded_image_result_failure)
qed

lemma example_body_fails:
  "predict_image_body example_env example_service ''nope.png'' 0 =
     Inl (PyExc ''ValueError'' ''Error preprocessing image nope.png: No such file'')"
  by (simp add: predict_image_body_def preprocess_single_image_def load_img_def
      try_except_def example_env_def example_service_def)

lemma example_upload_body_fails:
  "predict_uploaded_image_body example_env example_service
       \<lparr>upload_filename = None, upload_bytes = []\<rparr> 0 =
     Inl (PyExc ''ValueError'' ''Error preprocessing uploaded image: cannot identify image file'')"
  by (simp add: predict_uploaded_image_body_def preprocess_uploaded_image_def
      try_except_def example_env_def example_service_def)

theorem predict_never_raises_witness:
  "(\<exists>r. predict_image example_env example_service ''nope.png'' 0 = (Inr r, 1) \<and>
        field r ''success'' = Some (PBool False) \<and>
        field r ''error'' = Some (PStr ''Error preprocessing image nope.png: No such file'')) \<and>
   (\<exists>r. predict_uploaded_image example_env example_service
            \<lparr>upload_filename = None, upload_bytes = []\<rparr> 0 = (Inr r, 1) \<and>
        field r ''filename'' = Some (PStr ''unknown'') \<and>
        field r ''success'' = Some (PBool False))"
  using predict_never_raises [of example_env example_service "''nope.png''" 0
      "\<lparr>upload_filename = None, upload_bytes = []\<rparr>"]
    example_body_fails example_upload_body_fails
  by (auto simp: well_formed_record_def filename_of_def)

text \<open>
  Claim C10. \<^verbatim>\<open>predict_batch\<close> returns, without raising, a list as long as its input; the
  record at position \<open>i\<close> is the result of \<^verbatim>\<open>predict_image\<close> on \<open>image_paths ! i\<close> (at the
  clock state the loop has reached there) and carries that path; a failure of preprocessing
  or of prediction on that path gives a record with \<^verbatim>\<open>success\<close> false at that position.
\<close>

theorem predict_batch_positions:
  "\<exists>results. predict_batch E self image_paths n = (Inr results, n + length image_paths) \<and>
     length results = length image_paths \<and>
     (\<forall>i < length image_paths.
        fst (predict_image E self (image_paths ! i) (n + i)) = Inr (results ! i) \<and>
        field (results ! i) ''image_path'' = Some (PStr (image_paths ! i)) \<and>
        (\<forall>e. preprocess_single_image E (svc_img_size self) (image_paths ! i) True = Inl e \<longrightarrow>
             field (results ! i) ''success'' = Some (PBool False)) \<and>
        (\<forall>a e. preprocess_single_image E (svc_img_size self) (image_paths ! i) True = Inr a \<and>
               predict E (svc_classifier self) a = Inl e \<longrightarrow>
             field (results ! i) ''success'' = Some (PBool False)))"
proof -
  let ?res = "map (\<lambda>i. predict_image_result E self (image_paths ! i) (n + i))
                [0..<length image_paths]"
  have run: "predict_batch E self image_paths n = (Inr ?res, n + length image_paths)"
    by (simp add: predict_batch_def predict_batch_loop_eq)
  have each: "fst (predict_image E self (image_paths ! i) (n + i)) = Inr (?res ! i) \<and>
        field (?res ! i) ''image_path'' = Some (PStr (image_paths ! i)) \<and>
        (\<forall>e. preprocess_single_image E (svc_img_size self) (image_paths ! i) True = Inl e \<longrightarrow>
             field (?res ! i) ''success'' = Some (PBool False)) \<and>
        (\<forall>a e. preprocess_single_image E (svc_img_size self) (image_paths ! i) True = Inr a \<and>
               predict E (svc_classifier self) a = Inl e \<longrightarrow>
             field (?res ! i) ''success'' = Some (PBool False))"
    if "i < length image_paths" for i
  proof -
    have r: "?res ! i = predict_image_result E self (image_paths ! i) (n + i)"
      using that by simp
    show ?thesis
      unfolding r
      using predict_image_result_wf [of E self "image_paths ! i" "n + i"]
        predict_image_result_failure [of E self "image_paths ! i" "n + i"]
        body_fails_preprocess [of E self "image_paths ! i" _ "n + i"]
        body_fails_predict [of E self "image_paths ! i" _ _ "n + i"]
      by (auto simp: predict_image_total well_formed_record_def)
  qed
  show ?thesis
    using run each by (intro exI [of _ ?res]) simp
qed

lemma example_nope_fails:
  "preprocess_single_image example_env (svc_img_size example_service) ''nope.png'' True =
     Inl (PyExc ''ValueError'' ''Error preprocessing image nope.png: No such file'')"
  by (simp add: preprocess_single_image_def load_img_def try_except_def example_env_def)

theorem predict_batch_positions_witness:
  "\<exists>results. predict_batch example_env example_service [''cat.png'', ''nope.png''] 0 =
       (Inr results, 2) \<and>
     length results = 2 \<and>
     field (results ! 0) ''image_path'' = Some (PStr ''cat.png'') \<and>
     field (results ! 1) ''image_path'' = Some (PStr ''nope.png'') \<and>
     field (results ! 1) ''success'' = Some (PBool False)"
proof -
  from predict_batch_positions [of example_env example_service "[''cat.png'', ''nope.png'']" 0]
  obtain results where r:
    "predict_batch example_env example_service [''cat.png'', ''nope.png''] 0 = (Inr results, 2)"
    "length results = 2"
    and each: "\<And>i. i < 2 \<Longrightarrow>
       field (results ! i) ''image_path'' = Some (PStr ([''cat.png'', ''nope.png''] ! i)) \<and>
       (\<forall>e. preprocess_single_image example_env (svc_img_size example_service)
              ([''cat.png'', ''nope.png''] ! i) True = Inl e \<longrightarrow>
            field (results ! i) ''success'' = Some (PBool False))"
    by auto
  from each [of 0] each [of 1] example_nope_fails r show ?thesis
    by (intro exI [of _ results]) simp
qed

section \<open>Confidence and the top-k selection\<close>

lemma bind_exc_Inr_iff: "bind_exc m f = Inr r \<longleftrightarrow> (\<exists>v. m = Inr v \<and> f v = Inr r)"
  by (cases m) auto

lemma dict_set_fresh: "k \<notin> fst ` set d \<Longrightarrow> dict_set d k v = d @ [(k, v)]"
  by (induction d) auto

lemma foldl_dict_set_distinct:
  "distinct (map fst (acc @ kvs)) \<Longrightarrow>
     foldl (\<lambda>d (k, v). dict_set d k v) acc kvs = acc @ kvs"
proof (induction kvs arbitrary: acc)
  case Nil
  show ?case by simp
next
  case (Cons kv kvs)
  obtain k v where kv: "kv = (k, v)" by (cases kv)
  from Cons.prems have fresh: "k \<notin> fst ` set acc" by (auto simp: kv)
  from Cons.prems have "distinct (map fst ((acc @ [(k, v)]) @ kvs))" by (simp add: kv)
  from Cons.IH [OF this] show ?case by (simp add: kv dict_set_fresh [OF fresh])
qed

lemma enumerate_row_zip: "enumerate_row row = zip [0..<length row] row"
  using foldl_dict_set_distinct [of "[]" "zip [0..<length row] row"]
  by (simp add: enumerate_row_def dict_of_items_def)

lemma argmax_loop_spec:
  assumes "length pre = i" "best < i" "pre ! best = bv" "\<forall>x \<in> set pre. x \<le> bv"
  shows "argmax_loop xs i best bv < length (pre @ xs) \<and>
         (\<forall>x \<in> set (pre @ xs). x \<le> (pre @ xs) ! argmax_loop xs i best bv)"
  using assms
proof (induction xs arbitrary: pre i best bv)
  case Nil
  then show ?case by simp
next
  case (Cons x xs)
  show ?case
  proof (cases "bv < x")
    case True
    have "argmax_loop xs (Suc i) i x < length ((pre @ [x]) @ xs) \<and>
         (\<forall>y \<in> set ((pre @ [x]) @ xs). y \<le> ((pre @ [x]) @ xs) ! argmax_loop xs (Suc i) i x)"
      using Cons.prems True by (intro Cons.IH) (auto simp: nth_append)
    with True show ?thesis by simp
  next
    case False
    have "argmax_loop xs (Suc i) best bv < length ((pre @ [x]) @ xs) \<and>
         (\<forall>y \<in> set ((pre @ [x]) @ xs). y \<le> ((pre @ [x]) @ xs) ! argmax_loop xs (Suc i) best bv)"
      using Cons.prems False by (intro Cons.IH) (auto simp: nth_append)
    with False show ?thesis by simp
  qed
qed

lemma np_argmax_spec:
  assumes "np_argmax row = Inr i"
  shows "i < length row \<and> row ! i = Max (set row)"
proof -
  from assms obtain x r where row: "row = x # r" and i: "i = argmax_loop r 1 0 x"
    by (auto simp: np_argmax_def split: list.splits)
  from argmax_loop_spec [of "[x]" 1 0 x r]
  have *: "i < length row" "\<forall>y \<in> set row. y \<le> row ! i"
    by (simp_all add: row i)
  then have "row ! i \<in> set row" by simp
  with * show ?thesis by (auto intro!: Max_eqI [symmetric])
qed

lemma predict_Inr:
  assumes "predict E self image_array = Inr (predicted_class, confidence, probabilities)"
  shows "\<exists>m row rest. model self = Some m \<and> forward E m image_array = Inr (row # rest) \<and>
           np_argmax row = Inr predicted_class \<and> confidence = row ! predicted_class \<and>
           probabilities = zip [0..<length row] row"
proof (cases "model self")
  case None
  with assms show ?thesis by (simp add: predict_def)
next
  case (Some m)
  show ?thesis
  proof (cases "forward E m image_array")
    case (Inl e)
    with assms Some show ?thesis by (simp add: predict_def)
  next
    case (Inr predictions)
    show ?thesis
    proof (cases predictions)
      case Nil
      with assms Some Inr show ?thesis by (simp add: predict_def)
    next
      case (Cons row rest)
      with assms Some Inr show ?thesis
        by (cases "np_argmax row") (auto simp: predict_def enumerate_row_zip)
    qed
  qed
qed

lemma snd_zip_upt: "map snd (zip [0..<length row] row) = row"
  by (simp add: map_snd_zip)

text \<open>
  Claim C5 as stated fails in its second part: \<^verbatim>\<open>predict\<close> returns the output row of the
  network as it is, and for a loaded network that does not end in a softmax layer the values
  of the probability map do not sum to 1: here they sum to 3/2.
\<close>

theorem probabilities_need_not_sum_to_one:
  "predict sigmoid_env (svc_classifier example_service) example_array =
     Inr (0, 1/2, [(0, 1/2), (1, 1/2), (2, 1/2)]) \<and>
   sum_list (map snd [(0::nat, 1/2 :: real), (1, 1/2), (2, 1/2)]) = 3/2"
  by (simp add: predict_def sigmoid_env_def example_env_def example_service_def np_argmax_def
      enumerate_row_def dict_of_items_def)

text \<open>
  Claim C5, amended. For every prediction that \<^verbatim>\<open>ImageClassifier.predict\<close> returns, the
  confidence is the largest value of the returned probability map (and the value stored
  under the predicted index), and the values of the map are, in order, the first output row
  of the network, so that their sum is the sum of that row.
\<close>

theorem predict_confidence_is_max:
  assumes "predict E self image_array = Inr (predicted_class, confidence, probabilities)"
  shows "probabilities \<noteq> [] \<and>
         confidence = Max (snd ` set probabilities) \<and>
         dict_get probabilities predicted_class = Some confidence \<and>
         (\<exists>m row rest. model self = Some m \<and> forward E m image_array = Inr (row # rest) \<and>
            map snd probabilities = row \<and>
            sum_list (map snd probabilities) = sum_list row)"
proof -
  from predict_Inr [OF assms] obtain m row rest where
    m: "model self = Some m" "forward E m image_array = Inr (row # rest)"
    and am: "np_argmax row = Inr predicted_class"
    and c: "confidence = row ! predicted_class"
    and p: "probabilities = zip [0..<length row] row"
    by blast
  from np_argmax_spec [OF am] have i: "predicted_class < length row"
    and mx: "row ! predicted_class = Max (set row)" by simp_all
  have vals: "map snd probabilities = row" by (simp add: p map_snd_zip)
  then have "snd ` set probabilities = set row" by (metis set_map)
  with c mx have 1: "confidence = Max (snd ` set probabilities)" by simp
  from i have 2: "probabilities \<noteq> []" by (auto simp: p)
  have "map_of (zip [0..<length row] row) ([0..<length row] ! predicted_class) =
          Some (row ! predicted_class)"
    using i by (intro map_of_zip_nth) simp_all
  then have "map_of (zip [0..<length row] row) predicted_class = Some (row ! predicted_class)"
    using i by simp
  then have 3: "dict_get probabilities predicted_class = Some confidence"
    by (simp add: dict_get_def p c)
  from 1 2 3 m vals show ?thesis by auto
qed

theorem predict_confidence_is_max_witness:
  "predict example_env (svc_classifier example_service) example_array =
     Inr (1, 3/4, [(0, 1/4), (1, 3/4)]) \<and>
   (3/4 :: real) = Max (snd ` set [(0::nat, 1/4), (1, 3/4)]) \<and>
   dict_get [(0::nat, 1/4 :: real), (1, 3/4)] 1 = Some (3/4) \<and>
   forward example_env 0 example_array = Inr [[1/4, 3/4]] \<and>
   map snd [(0::nat, 1/4 :: real), (1, 3/4)] = [1/4, 3/4]"
proof -
  have run: "predict example_env (svc_classifier example_service) example_array =
      Inr (1, 3/4, [(0, 1/4), (1, 3/4)])"
    by (simp add: predict_def example_env_def example_service_def np_argmax_def
        enumerate_row_def dict_of_items_def)
  have fw: "forward example_env 0 example_array = Inr [[1/4, 3/4]]"
    by (simp add: example_env_def)
  from predict_confidence_is_max [OF run] run fw show ?thesis by simp
qed














section \<open>Preprocessing: shapes, value range and errors\<close>

lemma mode_name_not_RGB: "mode_name m \<noteq> ''RGB''"
  by (cases m) simp_all

lemma byte_range: "0 \<le> (unsigned w :: real) \<and> (unsigned w :: real) \<le> 255" for w :: byte
proof -
  have "unat w < 256" using unsigned_less [of w, where ?'a = nat] by simp
  then have "unat w \<le> 255" by simp
  then have "(of_nat (unat w) :: real) \<le> of_nat 255" by (simp only: of_nat_le_iff)
  moreover have "0 \<le> (of_nat (unat w) :: real)" by (rule of_nat_0_le_iff)
  ultimately show ?thesis by simp
qed

lemma load_img_Inr:
  assumes "load_img E path sz = Inr img"
  shows "im_size img = (snd sz, fst sz) \<and> (\<exists>f. im_raster img = RGB f)"
proof -
  from assms obtain img0 where o: "open_path E path = Inr img0"
    by (auto simp: load_img_def bind_exc_Inr_iff)
  let ?img1 = "if im_mode img0 \<noteq> ''RGB'' then convert_RGB E img0 else img0"
  have rgb: "\<exists>f. im_raster ?img1 = RGB f"
    by (cases "im_raster img0") (auto simp: im_mode_def convert_RGB_def mode_name_not_RGB)
  from assms o have r: "(if im_size ?img1 \<noteq> (snd sz, fst sz)
       then resize E ?img1 (snd sz, fst sz) else Inr ?img1) = Inr img"
    by (simp add: load_img_def Let_def)
  show ?thesis
  proof (cases "im_size ?img1 = (snd sz, fst sz)")
    case True
    with r rgb show ?thesis by auto
  next
    case False
    with r have "resize E ?img1 (snd sz, fst sz) = Inr img" by simp
    with rgb show ?thesis by (auto simp: resize_def split: if_splits)
  qed
qed

lemma pixel_values_RGB:
  "length (pixel_values (RGB f) x y) = 3 \<and>
   (\<forall>v \<in> set (pixel_values (RGB f) x y). 0 \<le> v \<and> v \<le> 255)"
proof -
  obtain a b c where "f x y = (a, b, c)" by (cases "f x y")
  then show ?thesis using byte_range by (simp add: pixel_values_def)
qed

lemma img_to_array_RGB:
  assumes "im_raster img = RGB f"
  shows "shape (img_to_array img) = [snd (im_size img), fst (im_size img), 3] \<and>
         (\<forall>v \<in> set (data (img_to_array img)). 0 \<le> v \<and> v \<le> 255)"
  using assms pixel_values_RGB [of f]
  by (auto simp: img_to_array_def Let_def channels_def)

lemma finish_array:
  assumes "shape a = [h, w, 3]" "\<forall>v \<in> set (data a). 0 \<le> v \<and> v \<le> 255"
  shows "shape (expand_dims0 (divide_array a 255)) = [1, h, w, 3] \<and>
         (\<forall>v \<in> set (data (expand_dims0 (divide_array a 255))). 0 \<le> v \<and> v \<le> 1)"
  using assms by (auto simp: expand_dims0_def divide_array_def)

lemma preprocess_single_image_shape:
  assumes "preprocess_single_image E sz image_path True = Inr a"
  shows "shape a = [1, fst sz, snd sz, 3] \<and> (\<forall>v \<in> set (data a). 0 \<le> v \<and> v \<le> 1)"
proof -
  from assms obtain img where l: "load_img E image_path sz = Inr img"
    and a: "a = expand_dims0 (divide_array (img_to_array img) 255)"
    by (cases "load_img E image_path sz")
       (auto simp: preprocess_single_image_def try_except_def Let_def)
  from load_img_Inr [OF l] obtain f where "im_size img = (snd sz, fst sz)" "im_raster img = RGB f"
    by blast
  with img_to_array_RGB [of img f] finish_array [of "img_to_array img" "fst sz" "snd sz"]
  show ?thesis by (simp add: a)
qed

lemma preprocess_uploaded_image_shape:
  assumes "preprocess_uploaded_image E sz image_file True = Inr a"
  shows "shape a = [1, snd sz, fst sz, 3] \<and> (\<forall>v \<in> set (data a). 0 \<le> v \<and> v \<le> 1)"
proof -
  from assms obtain img0 where o: "open_bytes E (upload_bytes image_file) = Inr img0"
    by (cases "open_bytes E (upload_bytes image_file)")
       (auto simp: preprocess_uploaded_image_def try_except_def)
  let ?img1 = "if im_mode img0 \<noteq> ''RGB'' then convert_RGB E img0 else img0"
  have rgb: "\<exists>f. im_raster ?img1 = RGB f"
    by (cases "im_raster img0") (auto simp: im_mode_def convert_RGB_def mode_name_not_RGB)
  from assms o obtain img where r: "resize E ?img1 sz = Inr img"
    and a: "a = expand_dims0 (divide_array (img_to_array img) 255)"
    by (cases "resize E ?img1 sz")
       (auto simp: preprocess_uploaded_image_def try_except_def Let_def)
  from r rgb obtain f where "im_size img = sz" "im_raster img = RGB f"
    by (auto simp: resize_def split: if_splits)
  with img_to_array_RGB [of img f] finish_array [of "img_to_array img" "snd sz" "fst sz"]
  show ?thesis by (simp add: a)
qed

text \<open>
  Claim C6. Both paths give batch dimension 1, three channels and values in [0, 1]
  (\<open>preprocess_single_image_shape\<close>, \<open>preprocess_uploaded_image_shape\<close>), but only the path
  through \<^verbatim>\<open>load_img\<close> gives (1, height, width, 3) for the configured
  \<^verbatim>\<open>img_size = (height, width)\<close>. The upload path hands \<^verbatim>\<open>img_size\<close> to PIL's
  \<^verbatim>\<open>resize\<close>, which reads it as (width, height): with \<^verbatim>\<open>img_size = (2, 3)\<close> an upload
  comes out with shape (1, 3, 2, 3), the same image size through the path gives (1, 2, 3, 3).
\<close>

theorem uploaded_image_shape_transposed:
  "map_sum id shape
     (preprocess_uploaded_image example_env (2, 3)
        \<lparr>upload_filename = Some (PStr ''red.png''), upload_bytes = [137, 80]\<rparr> True) = Inr [1, 3, 2, 3] \<and>
   map_sum id shape (preprocess_single_image example_env (2, 3) ''cat.png'' True) =
     Inr [1, 2, 3, 3]"
proof -
  have "\<exists>a. preprocess_uploaded_image example_env (2, 3)
        \<lparr>upload_filename = Some (PStr ''red.png''), upload_bytes = [137, 80]\<rparr> True = Inr a"
    by (simp add: preprocess_uploaded_image_def try_except_def example_env_def im_mode_def
        resize_def Let_def)
  then obtain a where a: "preprocess_uploaded_image example_env (2, 3)
        \<lparr>upload_filename = Some (PStr ''red.png''), upload_bytes = [137, 80]\<rparr> True = Inr a" ..
  have "\<exists>b. preprocess_single_image example_env (2, 3) ''cat.png'' True = Inr b"
    by (simp add: preprocess_single_image_def load_img_def try_except_def example_env_def
        im_mode_def convert_RGB_def resize_def Let_def)
  then obtain b where b: "preprocess_single_image example_env (2, 3) ''cat.png'' True = Inr b" ..
  from preprocess_uploaded_image_shape [OF a] preprocess_single_image_shape [OF b]
  show ?thesis by (simp add: a b)
qed

text \<open>
  Claim C8 as stated fails: the exception raised for a file that cannot be decoded has the
  class \<^verbatim>\<open>ValueError\<close>, not \<^verbatim>\<open>InvalidImageError\<close>.
\<close>

theorem undecodable_not_InvalidImageError:
  "open_path example_env ''corrupt.png'' =
     Inl (PyExc ''UnidentifiedImageError'' ''cannot identify image file'') \<and>
   preprocess_single_image example_env (2, 3) ''corrupt.png'' True =
     Inl (PyExc ''ValueError''
            ''Error preprocessing image corrupt.png: cannot identify image file'') \<and>
   exc_type (PyExc ''ValueError''
            ''Error preprocessing image corrupt.png: cannot identify image file'') \<noteq>
     ''InvalidImageError''"
  by (simp add: preprocess_single_image_def load_img_def try_except_def example_env_def)

lemma preprocess_single_image_Inl:
  "preprocess_single_image E sz image_path nz = Inl x \<Longrightarrow> exc_type x = ''ValueError''"
  by (cases "load_img E image_path sz")
     (auto simp: preprocess_single_image_def try_except_def Let_def)

lemma preprocess_uploaded_image_Inl:
  assumes "preprocess_uploaded_image E sz image_file nz = Inl x"
  shows "exc_type x = ''ValueError''"
proof -
  obtain body where "preprocess_uploaded_image E sz image_file nz =
      try_except body
        (\<lambda>e. Inl (PyExc ''ValueError'' (''Error preprocessing uploaded image: '' @ exc_msg e)))"
    by (simp add: preprocess_uploaded_image_def)
  with assms show ?thesis
    by (cases body) (auto simp: try_except_def)
qed

text \<open>
  Claim C8, amended. When the image cannot be decoded, preprocessing raises a
  \<^verbatim>\<open>ValueError\<close> whose text is \<^verbatim>\<open>Error preprocessing image <path>: <text>\<close>, for an upload
  \<^verbatim>\<open>Error preprocessing uploaded image: <text>\<close>, with the text of the decoder's exception;
  and every exception the two functions raise is a \<^verbatim>\<open>ValueError\<close>.
\<close>

theorem undecodable_raises_ValueError:
  "(open_path E image_path = Inl e \<longrightarrow>
      preprocess_single_image E sz image_path nz =
        Inl (PyExc ''ValueError''
               (''Error preprocessing image '' @ image_path @ '': '' @ exc_msg e))) \<and>
   (open_bytes E (upload_bytes image_file) = Inl e' \<longrightarrow>
      preprocess_uploaded_image E sz image_file nz =
        Inl (PyExc ''ValueError'' (''Error preprocessing uploaded image: '' @ exc_msg e'))) \<and>
   (\<forall>x. preprocess_single_image E sz image_path nz = Inl x \<or>
        preprocess_uploaded_image E sz image_file nz = Inl x \<longrightarrow>
      exc_type x = ''ValueError'')"
  using preprocess_single_image_Inl [of E sz image_path nz]
    preprocess_uploaded_image_Inl [of E sz image_file nz]
  by (auto simp: preprocess_single_image_def preprocess_uploaded_image_def load_img_def
      try_except_def)

theorem undecodable_raises_ValueError_witness:
  "open_path example_env ''corrupt.png'' =
     Inl (PyExc ''UnidentifiedImageError'' ''cannot identify image file'') \<and>
   open_bytes example_env (upload_bytes \<lparr>upload_filename = None, upload_bytes = []\<rparr>) =
     Inl (PyExc ''UnidentifiedImageError'' ''cannot identify image file'') \<and>
   preprocess_single_image example_env (2, 3) ''corrupt.png'' True =
     Inl (PyExc ''ValueError''
            ''Error preprocessing image corrupt.png: cannot identify image file'') \<and>
   preprocess_uploaded_image example_env (2, 3) \<lparr>upload_filename = None, upload_bytes = []\<rparr> True =
     Inl (PyExc ''ValueError''
            ''Error preprocessing uploaded image: cannot identify image file'')"
proof -
  have 1: "open_path example_env ''corrupt.png'' =
     Inl (PyExc ''UnidentifiedImageError'' ''cannot identify image file'')"
    by (simp add: example_env_def)
  have 2: "open_bytes example_env (upload_bytes \<lparr>upload_filename = None, upload_bytes = []\<rparr>) =
     Inl (PyExc ''UnidentifiedImageError'' ''cannot identify image file'')"
    by (simp add: example_env_def)
  from undecodable_raises_ValueError [of example_env "''corrupt.png''"
      "PyExc ''UnidentifiedImageError'' ''cannot identify image file''" "(2, 3)" True
      "\<lparr>upload_filename = None, upload_bytes = []\<rparr>"
      "PyExc ''UnidentifiedImageError'' ''cannot identify image file''"] 1 2
  show ?thesis by simp
qed

section \<open>Prediction statistics\<close>

lemma count_step_record:
  "log_record l \<Longrightarrow> count_step acc l = Inr (acc + (if successful l then 1 else 0))"
  by (auto simp: log_record_def count_step_def successful_def split: pyval.splits)

lemma count_loop:
  "\<forall>l \<in> set logs. log_record l \<Longrightarrow>
     for_loop count_step logs acc = Inr (acc + length (filter successful logs))"
  by (induction logs arbitrary: acc) (simp_all add: count_step_record)

lemma stats_step_record:
  assumes "log_record l"
  shows "stats_step (cc, cs) l =
           Inr (foldl counts_bump cc (map PStr (class_of l)), cs @ confidence_of l)"
proof -
  from assms obtain d where l: "l = PDict d" by (auto simp: log_record_def split: pyval.splits)
  show ?thesis
  proof (cases "successful l")
    case False
    then show ?thesis
      by (simp add: stats_step_def l successful_def class_of_def confidence_of_def)
  next
    case True
    then have s: "truthy (case dict_get d ''success'' of None \<Rightarrow> PBool False | Some v \<Rightarrow> v)"
      by (simp add: successful_def l)
    from assms have "dict_get d ''predicted_class'' = None \<or>
        dict_get d ''predicted_class'' = Some PNone \<or>
        (\<exists>c. dict_get d ''predicted_class'' = Some (PStr c))"
      by (auto simp: log_record_def l split: option.splits pyval.splits)
    then have cls: "bind_exc (if truthy (case dict_get d ''predicted_class'' of
                                None \<Rightarrow> PNone | Some v \<Rightarrow> v)
                      then count_class cc (case dict_get d ''predicted_class'' of
                                None \<Rightarrow> PNone | Some v \<Rightarrow> v)
                      else Inr cc) f =
         f (foldl counts_bump cc (map PStr (class_of l)))" for f :: "(pyval \<times> int) list \<Rightarrow> pyexc + 'b"
      using True by (auto simp: class_of_def l field_def count_class_def)
    have conf: "(if (case dict_get d ''confidence'' of None \<Rightarrow> PNone | Some v \<Rightarrow> v) \<noteq> PNone
           then cs @ [case dict_get d ''confidence'' of None \<Rightarrow> PNone | Some v \<Rightarrow> v]
           else cs) = cs @ confidence_of l"
      using True by (auto simp: confidence_of_def l field_def split: option.splits)
    show ?thesis
      by (simp add: stats_step_def l s cls conf)
  qed
qed

lemma stats_loop:
  "\<forall>l \<in> set logs. log_record l \<Longrightarrow>
     for_loop stats_step logs (cc, cs) =
       Inr (foldl counts_bump cc (map PStr (concat (map class_of logs))),
            cs @ concat (map confidence_of logs))"
  by (induction logs arbitrary: cc cs) (simp_all add: stats_step_record)

lemma statistics_of_empty: "statistics_of np (PList []) = Inr zero_statistics"
  by (simp add: statistics_of_def reduce_or_zero_def zero_statistics_def)

text \<open>
  Claim C9 as stated fails on an empty log: for a log file that exists and holds an empty
  array, \<^verbatim>\<open>get_prediction_statistics\<close> returns the zero-filled statistics object, which is not
  the marker and has no \<^verbatim>\<open>error\<close> field.
\<close>

theorem empty_log_gives_zero_statistics:
  "get_prediction_statistics example_numpy empty_log_files ''prediction_log.json'' =
     Inr zero_statistics \<and>
   zero_statistics \<noteq> no_logs_marker \<and>
   field zero_statistics ''error'' = None"
  by (simp add: get_prediction_statistics_def empty_log_files_def try_except_def
      statistics_of_empty)
     (simp add: zero_statistics_def no_logs_marker_def field_def dict_get_def)

lemma counts_bump_lookup:
  assumes "text_keys cc"
  shows "text_keys (counts_bump cc (PStr c)) \<and>
         map_of (counts_bump cc (PStr c)) (PStr c') =
           (if c' = c then Some (case map_of cc (PStr c) of None \<Rightarrow> 1 | Some m \<Rightarrow> m + 1)
            else map_of cc (PStr c'))"
  using assms
proof (induction cc)
  case Nil
  show ?case by (simp add: text_keys_def)
next
  case (Cons kc cc)
  obtain k m where kc: "kc = (k, m)" by (cases kc)
  from Cons.prems obtain s where k: "k = PStr s" and t: "text_keys cc"
    by (auto simp: text_keys_def kc split: pyval.splits)
  from Cons.IH [OF t] t show ?case
    by (auto simp: kc k text_keys_def)
qed

lemma counts_fold_lookup:
  assumes "text_keys cc"
  shows "map_of (foldl counts_bump cc (map PStr cs)) (PStr c) =
           (case map_of cc (PStr c) of
              None \<Rightarrow> (if count_list cs c = 0 then None else Some (int (count_list cs c)))
            | Some m \<Rightarrow> Some (m + int (count_list cs c)))"
  using assms
proof (induction cs arbitrary: cc)
  case Nil
  show ?case by (simp split: option.splits)
next
  case (Cons x cs)
  from counts_bump_lookup [OF Cons.prems, of x c]
  have t: "text_keys (counts_bump cc (PStr x))"
    and l: "map_of (counts_bump cc (PStr x)) (PStr c) =
           (if c = x then Some (case map_of cc (PStr x) of None \<Rightarrow> 1 | Some m \<Rightarrow> m + 1)
            else map_of cc (PStr c))"
    by simp_all
  show ?case
    using Cons.IH [OF t] by (auto simp: l split: option.splits)
qed

lemma class_distribution_lookup:
  "dict_get (map (\<lambda>(k, c). (k, PInt c)) (foldl counts_bump [] (map PStr cs))) (PStr c) =
     (if count_list cs c = 0 then None else Some (PInt (int (count_list cs c))))"
proof -
  have "map_of (map (\<lambda>(k, c). (k, PInt c)) cc) k = map_option PInt (map_of cc k)"
    for cc :: "(pyval \<times> int) list" and k
    by (induction cc) auto
  moreover have "text_keys []" by (simp add: text_keys_def)
  ultimately show ?thesis
    using counts_fold_lookup [of "[]" cs c] by (simp add: dict_get_def)
qed

lemma statistics_of_records:
  assumes "\<forall>l \<in> set logs. log_record l"
    and "reduce_or_zero (np_mean np) (concat (map confidence_of logs)) = Inr average"
    and "reduce_or_zero (np_min np) (concat (map confidence_of logs)) = Inr minimum"
    and "reduce_or_zero (np_max np) (concat (map confidence_of logs)) = Inr maximum"
  shows "statistics_of np (PList logs) =
     Inr (statistics_record (length logs) (length (filter successful logs))
            (map (\<lambda>(k, c). (k, PInt c))
               (foldl counts_bump [] (map PStr (concat (map class_of logs)))))
            average minimum maximum)"
  using assms(2-4)
  by (simp add: statistics_of_def count_loop [OF assms(1)] stats_loop [OF assms(1)]
      statistics_record_def)

text \<open>
  Claim C9, amended. On a missing log file \<^verbatim>\<open>get_prediction_statistics\<close> returns the marker
  \<^verbatim>\<open>{'error': 'No prediction logs found'}\<close>; on a log file holding an empty array it
  returns the zero-filled statistics; on a file that \<^verbatim>\<open>json.load\<close> cannot read it returns
  \<^verbatim>\<open>{'error': <text>}\<close> with the text of that exception; and on a log that is an array of
  records it returns the number of records, of successful records and their difference,
  for every class name the number of successful records predicting it, and numpy's mean,
  min and max of the confidences of the successful records (0 each when there are none).
\<close>

theorem statistics_marker_only_when_missing:
  "(files log_path = None \<longrightarrow>
      get_prediction_statistics np files log_path = Inr no_logs_marker) \<and>
   (files log_path = Some (Inr (PList [])) \<longrightarrow>
      get_prediction_statistics np files log_path = Inr zero_statistics) \<and>
   (files log_path = Some (Inl e) \<longrightarrow>
      get_prediction_statistics np files log_path = Inr (PDict [(''error'', PStr (exc_msg e))])) \<and>
   (files log_path = Some (Inr (PList logs)) \<and> (\<forall>l \<in> set logs. log_record l) \<and>
    reduce_or_zero (np_mean np) (concat (map confidence_of logs)) = Inr average \<and>
    reduce_or_zero (np_min np) (concat (map confidence_of logs)) = Inr minimum \<and>
    reduce_or_zero (np_max np) (concat (map confidence_of logs)) = Inr maximum \<longrightarrow>
      (\<exists>distribution.
         get_prediction_statistics np files log_path =
           Inr (statistics_record (length logs) (length (filter successful logs)) distribution
                  average minimum maximum) \<and>
         (\<forall>c. dict_get distribution (PStr c) =
                (if count_list (concat (map class_of logs)) c = 0 then None
                 else Some (PInt (int (count_list (concat (map class_of logs)) c)))))))"
proof (intro conjI impI)
  assume "files log_path = None"
  then show "get_prediction_statistics np files log_path = Inr no_logs_marker"
    by (simp add: get_prediction_statistics_def try_except_def no_logs_marker_def)
next
  assume "files log_path = Some (Inr (PList []))"
  then show "get_prediction_statistics np files log_path = Inr zero_statistics"
    by (simp add: get_prediction_statistics_def try_except_def statistics_of_empty)
next
  assume "files log_path = Some (Inl e)"
  then show "get_prediction_statistics np files log_path =
      Inr (PDict [(''error'', PStr (exc_msg e))])"
    by (simp add: get_prediction_statistics_def try_except_def)
next
  assume a: "files log_path = Some (Inr (PList logs)) \<and> (\<forall>l \<in> set logs. log_record l) \<and>
    reduce_or_zero (np_mean np) (concat (map confidence_of logs)) = Inr average \<and>
    reduce_or_zero (np_min np) (concat (map confidence_of logs)) = Inr minimum \<and>
    reduce_or_zero (np_max np) (concat (map confidence_of logs)) = Inr maximum"
  let ?d = "map (\<lambda>(k, c). (k, PInt c))
               (foldl counts_bump [] (map PStr (concat (map class_of logs))))"
  from a statistics_of_records [of logs np average minimum maximum]
  have "get_prediction_statistics np files log_path =
           Inr (statistics_record (length logs) (length (filter successful logs)) ?d
                  average minimum maximum)"
    by (simp add: get_prediction_statistics_def try_except_def)
  then show "\<exists>distribution.
         get_prediction_statistics np files log_path =
           Inr (statistics_record (length logs) (length (filter successful logs)) distribution
                  average minimum maximum) \<and>
         (\<forall>c. dict_get distribution (PStr c) =
                (if count_list (concat (map class_of logs)) c = 0 then None
                 else Some (PInt (int (count_list (concat (map class_of logs)) c)))))"
    using class_distribution_lookup by (intro exI [of _ ?d]) simp
qed

lemma example_logs_facts:
  "example_log_files ''prediction_log.json'' = Some (Inr (PList example_logs))"
  "\<forall>l \<in> set example_logs. log_record l"
  "concat (map confidence_of example_logs) = [PFloat (3/4), PFloat (1/4)]"
  "concat (map class_of example_logs) = [''cat'', ''cat'']"
  "length (filter successful example_logs) = 2"
  "length example_logs = 3"
  by (simp_all add: example_log_files_def example_logs_def example_log_def log_record_def
      confidence_of_def class_of_def successful_def field_def dict_get_def)

lemma example_reductions:
  "reduce_or_zero (np_mean example_numpy) [PFloat (3/4), PFloat (1/4)] = Inr (PFloat (1/2))"
  "reduce_or_zero (np_min example_numpy) [PFloat (3/4), PFloat (1/4)] = Inr (PFloat (1/4))"
  "reduce_or_zero (np_max example_numpy) [PFloat (3/4), PFloat (1/4)] = Inr (PFloat (3/4))"
  by (simp_all add: reduce_or_zero_def example_numpy_def)

theorem statistics_marker_only_when_missing_witness:
  "get_prediction_statistics example_numpy example_log_files ''absent.json'' = Inr no_logs_marker \<and>
   get_prediction_statistics example_numpy empty_log_files ''prediction_log.json'' =
     Inr zero_statistics \<and>
   get_prediction_statistics example_numpy example_log_files ''truncated.json'' =
     Inr (PDict [(''error'', PStr ''Expecting value: line 1 column 1 (char 0)'')]) \<and>
   (\<exists>distribution.
      get_prediction_statistics example_numpy example_log_files ''prediction_log.json'' =
        Inr (statistics_record 3 2 distribution (PFloat (1/2)) (PFloat (1/4)) (PFloat (3/4))) \<and>
      dict_get distribution (PStr ''cat'') = Some (PInt 2) \<and>
      dict_get distribution (PStr ''dog'') = None)"
proof -
  have 1: "example_log_files ''absent.json'' = None"
    by (simp add: example_log_files_def)
  have 2: "empty_log_files ''prediction_log.json'' = Some (Inr (PList []))"
    by (simp add: empty_log_files_def)
  have 3: "example_log_files ''truncated.json'' =
      Some (Inl (PyExc ''JSONDecodeError'' ''Expecting value: line 1 column 1 (char 0)''))"
    by (simp add: example_log_files_def)
  from statistics_marker_only_when_missing [of example_log_files "''absent.json''" example_numpy] 1
  have a: "get_prediction_statistics example_numpy example_log_files ''absent.json'' =
      Inr no_logs_marker" by simp
  from statistics_marker_only_when_missing [of empty_log_files "''prediction_log.json''"
      example_numpy] 2
  have b: "get_prediction_statistics example_numpy empty_log_files ''prediction_log.json'' =
     Inr zero_statistics" by simp
  from statistics_marker_only_when_missing [of example_log_files "''truncated.json''" example_numpy
      "PyExc ''JSONDecodeError'' ''Expecting value: line 1 column 1 (char 0)''"] 3
  have c: "get_prediction_statistics example_numpy example_log_files ''truncated.json'' =
     Inr (PDict [(''error'', PStr ''Expecting value: line 1 column 1 (char 0)'')])" by simp
  from statistics_marker_only_when_missing [of example_log_files "''prediction_log.json''"
      example_numpy _ example_logs "PFloat (1/2)" "PFloat (1/4)" "PFloat (3/4)"]
    example_logs_facts example_reductions
  obtain distribution where
    "get_prediction_statistics example_numpy example_log_files ''prediction_log.json'' =
        Inr (statistics_record 3 2 distribution (PFloat (1/2)) (PFloat (1/4)) (PFloat (3/4)))"
    "\<forall>c. dict_get distribution (PStr c) =
        (if count_list [''cat'', ''cat''] c = 0 then None
         else Some (PInt (int (count_list [''cat'', ''cat''] c))))"
    by auto
  moreover from this(2) have "dict_get distribution (PStr ''cat'') = Some (PInt 2)"
    "dict_get distribution (PStr ''dog'') = None"
    by simp_all
  ultimately show ?thesis using a b c by blast
qed

section \<open>Saving and loading a model\<close>

lemma save_model_Inr:
  assumes "save_model self fs filepath ''h5'' True now = Inr fs'"
  shows "\<exists>m. model self = Some m \<and>
           fs' = (fs(filepath \<mapsto> ModelFile m))
                   (replace_str ''.h5'' ''_metadata.json'' filepath \<mapsto>
                      MetadataFile \<lparr>md_img_size = Some (img_size self),
                                    md_num_classes = Some (num_classes self),
                                    md_learning_rate = Some (learning_rate self),
                                    md_saved_at = Some now\<rparr>)"
proof (cases "model self")
  case None
  with assms show ?thesis by (simp add: save_model_def)
next
  case (Some m)
  with assms show ?thesis
    by (cases "makedirs fs (dirname filepath)") (auto simp: save_model_def Let_def)
qed

lemma save_load_round_trip:
  assumes s: "save_model self fs filepath ''h5'' True now = Inr fs'"
    and d: "replace_str ''.h5'' ''_metadata.json'' filepath \<noteq> filepath"
    and k: "replace_str ''.keras'' ''_metadata.json''
              (replace_str ''.h5'' ''_metadata.json'' filepath) =
            replace_str ''.h5'' ''_metadata.json'' filepath"
    and "endswith filepath ''.h5''"
    and "dirname (replace_str ''.h5'' ''_metadata.json'' filepath) = dirname filepath"
  shows "load_model fresh fs' filepath =
           Inr (fresh\<lparr>img_size := img_size self, num_classes := num_classes self,
                      learning_rate := learning_rate self, model := model self\<rparr>)"
proof -
  from save_model_Inr [OF s] obtain m where m: "model self = Some m"
    and fs': "fs' = (fs(filepath \<mapsto> ModelFile m))
                   (replace_str ''.h5'' ''_metadata.json'' filepath \<mapsto>
                      MetadataFile \<lparr>md_img_size = Some (img_size self),
                                    md_num_classes = Some (num_classes self),
                                    md_learning_rate = Some (learning_rate self),
                                    md_saved_at = Some now\<rparr>)"
    by blast
  from d have a: "fs' filepath = Some (ModelFile m)" by (simp add: fs')
  have b: "fs' (replace_str ''.h5'' ''_metadata.json'' filepath) =
      Some (MetadataFile \<lparr>md_img_size = Some (img_size self),
                                    md_num_classes = Some (num_classes self),
                                    md_learning_rate = Some (learning_rate self),
                                    md_saved_at = Some now\<rparr>)"
    by (simp add: fs')
  show ?thesis
    by (simp add: load_model_def a b k keras_load_model_def try_except_def m)
qed

text \<open>
  Claim C7. The round trip holds for a path ending in \<^verbatim>\<open>.h5\<close> from which both functions
  derive the same sidecar path, in the directory of the path (\<open>save_load_round_trip\<close>), as for
  \<^verbatim>\<open>models/image_classifier_model.h5\<close>. \<^verbatim>\<open>save_model\<close> derives the sidecar path by
  replacing \<^verbatim>\<open>.h5\<close> only, \<^verbatim>\<open>load_model\<close> by replacing \<^verbatim>\<open>.h5\<close> and \<^verbatim>\<open>.keras\<close>: for
  a \<^verbatim>\<open>.keras\<close> path the sidecar is written over the model file just saved and loading
  raises, and for a path with \<^verbatim>\<open>.keras\<close> in a directory name loading succeeds and keeps
  the fresh classifier's own metadata.
\<close>

theorem save_load_keras_path_loses_metadata:
  "save_then_load trained_classifier (new_classifier (224, 224) 2 (1/10000)) no_files
     ''models/image_classifier_model.keras'' saved_at_example =
     Inl (PyExc ''ValueError''
            ''File not found or not a model: models/image_classifier_model.keras'') \<and>
   save_then_load trained_classifier (new_classifier (224, 224) 2 (1/10000)) no_files
     ''run.keras/model.h5'' saved_at_example =
     Inr \<lparr>img_size = (224, 224), num_classes = 2, learning_rate = 1/10000, model = Some 7\<rparr> \<and>
   save_then_load trained_classifier (new_classifier (224, 224) 2 (1/10000)) no_files
     ''models/image_classifier_model.h5'' saved_at_example =
     Inr \<lparr>img_size = (128, 128), num_classes = 3, learning_rate = 1/1000, model = Some 7\<rparr>"
  by (simp add: save_then_load_def save_model_def load_model_def keras_load_model_def
      try_except_def makedirs_def dirname_def rstrip_slash_def endswith_def
      trained_classifier_def new_classifier_def no_files_def Let_def)

section \<open>The retraining job and its route\<close>

lemma perform_retraining_status:
  "status (perform_retraining W s) =
     (case fst (perform_retraining_try W s) of
        None \<Rightarrow> (status (snd (perform_retraining_try W s)))\<lparr>is_running := False\<rparr>
      | Some e \<Rightarrow> (status (snd (perform_retraining_try W s)))
                    \<lparr>message := ''Error during retraining: '' @ exc_msg e,
                     progress := 0, is_running := False\<rparr>)"
  by (cases "perform_retraining_try W s")
     (simp add: perform_retraining_def split: option.splits)

lemma try_raises_at_each_step:
  "create_train_generator W = Inl e \<Longrightarrow> fst (perform_retraining_try W s) = Some e"
  "create_train_generator W = Inr u \<Longrightarrow>
     retrain_classifier W (new_classifier (224, 224) 2 (1/10000)) (disk s) (MODEL_PATH W) = Inl e \<Longrightarrow>
     fst (perform_retraining_try W s) = Some e"
  by (simp_all add: perform_retraining_try_def Let_def set_progress_def)

text \<open>
  Claim C2. Every run of \<^verbatim>\<open>perform_retraining\<close> ends with \<^verbatim>\<open>is_running\<close> false, whether
  its \<^verbatim>\<open>try\<close> block completes or raises; when the block raises, at whatever step, the final
  status has progress 0 and as message the text of the exception, after the prefix
  \<^verbatim>\<open>Error during retraining: \<close>. A failure to build the generators or to retrain is such
  an exception of the block.
\<close>

theorem retraining_always_clears_running:
  "is_running (status (perform_retraining W s)) = False \<and>
   (\<forall>e. fst (perform_retraining_try W s) = Some e \<longrightarrow>
        message (status (perform_retraining W s)) = ''Error during retraining: '' @ exc_msg e \<and>
        progress (status (perform_retraining W s)) = 0) \<and>
   (\<forall>e. create_train_generator W = Inl e \<longrightarrow> fst (perform_retraining_try W s) = Some e) \<and>
   (\<forall>e u. create_train_generator W = Inr u \<and>
          retrain_classifier W (new_classifier (224, 224) 2 (1/10000)) (disk s) (MODEL_PATH W) =
            Inl e \<longrightarrow>
        fst (perform_retraining_try W s) = Some e)"
  using try_raises_at_each_step [of W _ s]
  by (auto simp: perform_retraining_status split: option.splits)

theorem retraining_always_clears_running_witness:
  "create_train_generator example_world =
     Inl (PyExc ''FileNotFoundError'' ''No such directory: data/train'') \<and>
   status (perform_retraining example_world idle_app) =
     \<lparr>is_running = False, progress = 0,
      message = ''Error during retraining: No such directory: data/train'',
      last_retrain_time = None\<rparr>"
proof -
  have g: "create_train_generator example_world =
     Inl (PyExc ''FileNotFoundError'' ''No such directory: data/train'')"
    by (simp add: example_world_def)
  from retraining_always_clears_running [of example_world idle_app] g
  have "is_running (status (perform_retraining example_world idle_app)) = False"
    "message (status (perform_retraining example_world idle_app)) =
       ''Error during retraining: No such directory: data/train''"
    "progress (status (perform_retraining example_world idle_app)) = 0"
    by auto
  moreover have "last_retrain_time (status (perform_retraining example_world idle_app)) = None"
    by (simp add: perform_retraining_status perform_retraining_try_def g set_progress_def
        idle_app_def)
  ultimately show ?thesis using g
    by (cases "status (perform_retraining example_world idle_app)") simp
qed

text \<open>
  Claim C3 as stated fails in its last part: \<^verbatim>\<open>is_running\<close> is set by the job itself, not
  by the request that starts its thread, so a second request that arrives before the first
  job has executed its first statements is accepted as well, and two jobs run.
\<close>

theorem two_requests_start_two_jobs:
  "is_running (status idle_app) = False \<and>
   jobs_alive (run example_world [Request POST, Request POST] idle_app) = 2 \<and>
   working (run example_world [Request POST, Request POST, Job_begins, Job_begins] idle_app) = 2"
  by (simp add: run_def fire_def retrain_def idle_app_def jobs_alive_def)

text \<open>
  Claim C3, amended. In every state in which \<^verbatim>\<open>is_running\<close> is true, a POST to the route is
  rejected: it starts no job, answers with the warning only, and leaves the whole state the
  same. No request changes the status record, and a request starts a job (exactly one) only
  if it is a POST that finds \<^verbatim>\<open>is_running\<close> false.
\<close>

theorem retrain_rejected_while_running:
  "(is_running (status s) \<longrightarrow>
      retrain POST s =
        (Redirect ''retrain'' [(''Retraining already in progress'', ''warning'')], s)) \<and>
   status (snd (retrain m s)) = status s \<and>
   (jobs_alive (snd (retrain m s)) \<noteq> jobs_alive s \<longrightarrow>
      m = POST \<and> \<not> is_running (status s) \<and>
      jobs_alive (snd (retrain m s)) = jobs_alive s + 1)"
  by (simp add: retrain_def jobs_alive_def)

theorem retrain_rejected_while_running_witness:
  "is_running (status running_app) \<and>
   retrain POST running_app =
     (Redirect ''retrain'' [(''Retraining already in progress'', ''warning'')], running_app) \<and>
   jobs_alive (snd (retrain POST idle_app)) \<noteq> jobs_alive idle_app \<and>
   \<not> is_running (status idle_app)"
proof -
  have r: "is_running (status running_app)"
    by (simp add: running_app_def run_def fire_def retrain_def idle_app_def)
  have j: "jobs_alive (snd (retrain POST idle_app)) \<noteq> jobs_alive idle_app"
    by (simp add: retrain_def idle_app_def jobs_alive_def)
  from retrain_rejected_while_running [of running_app POST] r
    retrain_rejected_while_running [of idle_app POST] j
  show ?thesis by simp
qed

end
